theory Spec2Isabelle
  imports Complex_Main "HOL-Library.Sublist"
begin

section \<open>Python values, dictionaries and exceptions\<close>

text \<open>
  The progress payloads and history records of the web layer are JSON documents read into
  Python dictionaries. A value is one of the JSON shapes; numbers are Python ints and
  floats, read as reals. Strings are byte lists: a literal outside ASCII is written as its
  UTF-8 bytes, so that string equality is equality of the encoded text.
\<close>

datatype pyval =
    PNone
  | PBool bool
  | PNum real
  | PStr string
  | PList "pyval list"
  | PDict "(string \<times> pyval) list"

type_synonym pydict = "(string \<times> pyval) list"

datatype py_exn =
    TypeError
  | ValueError
  | AttributeError
  | KeyError
  | IndexError
  | ZeroDivisionError
  | OSError string
  | RedisError string
  | ImportError
  | StreamlitError string
  | RerunException

text \<open>
  \<open>st.rerun()\<close> raises Streamlit's \<open>RerunException\<close>, a script-control exception that
  derives from \<open>BaseException\<close>: an \<open>except Exception\<close> clause does not catch it.
\<close>

definition is_Exception :: "py_exn \<Rightarrow> bool" where
  "is_Exception e = (e \<noteq> RerunException)"

text \<open>Truthiness, as \<open>if x:\<close> and \<open>not x\<close> read it.\<close>

fun py_truthy :: "pyval \<Rightarrow> bool" where
  "py_truthy PNone = False"
| "py_truthy (PBool b) = b"
| "py_truthy (PNum x) = (x \<noteq> 0)"
| "py_truthy (PStr s) = (s \<noteq> [])"
| "py_truthy (PList xs) = (xs \<noteq> [])"
| "py_truthy (PDict d) = (d \<noteq> [])"

text \<open>\<open>d.get(k, default)\<close>; \<open>d.get(k)\<close> is \<open>dict_get d k PNone\<close>.\<close>

definition dict_get :: "pydict \<Rightarrow> string \<Rightarrow> pyval \<Rightarrow> pyval" where
  "dict_get d k dflt = (case map_of d k of Some v \<Rightarrow> v | None \<Rightarrow> dflt)"

text \<open>
  A value used as a number: ints, floats and bools (\<open>True\<close> is \<open>1\<close>) are numbers, every other
  shape makes the comparison or the arithmetic raise \<open>TypeError\<close>.
\<close>

fun py_num :: "pyval \<Rightarrow> py_exn + real" where
  "py_num (PNum x) = Inr x"
| "py_num (PBool b) = Inr (if b then 1 else 0)"
| "py_num _ = Inl TypeError"

text \<open>\<open>v == n\<close> for a number literal \<open>n\<close>, and \<open>v == s\<close> for a string literal \<open>s\<close>: neither raises.\<close>

definition py_eq_num :: "pyval \<Rightarrow> real \<Rightarrow> bool" where
  "py_eq_num v n = (case py_num v of Inr x \<Rightarrow> x = n | Inl _ \<Rightarrow> False)"

definition py_eq_str :: "pyval \<Rightarrow> string \<Rightarrow> bool" where
  "py_eq_str v s = (v = PStr s)"


text \<open>\<open>a / b\<close> on numbers.\<close>

definition py_truediv :: "real \<Rightarrow> real \<Rightarrow> py_exn + real" where
  "py_truediv a b = (if b = 0 then Inl ZeroDivisionError else Inr (a / b))"

section \<open>What the page shows\<close>

text \<open>
  A call of a Streamlit widget or of the logger is recorded as an event: the function
  called, an English gloss of the literal text it is given, and the values interpolated
  into that text, in order.
\<close>

datatype content =
    CStr string
  | CNum real
  | CPct1f real
  | CVal pyval
  | CExn py_exn

datatype ui_event =
    UI string string "content list"
  | Button string
  | Checkbox string
  | Fetch string
  | SessionSet string pyval
  | SessionDel string
  | Sleep real
  | Log string string
  | Storage string string

section \<open>History page: filters and statistics (web/modules/analysis_history.py)\<close>













text \<open>\<open>len([r for r in records if r.get('status') == s])\<close>\<close>

definition count_status :: "pydict list \<Rightarrow> string \<Rightarrow> nat" where
  "count_status records s =
     length (filter (\<lambda>r. py_eq_str (dict_get r ''status'' PNone) s) records)"

text \<open>
  \<open>display_statistics\<close>: nothing for an empty list, otherwise a sub-header, four columns and
  four metrics. The percentages are \<open>count / len(records) * 100\<close>, shown with one decimal.
  The function has no \<open>try\<close>; the one exception its own arithmetic can raise is that of
  the division, which is what the result records.
\<close>

definition display_statistics :: "pydict list \<Rightarrow> py_exn + ui_event list" where
  "display_statistics records =
     (if records = [] then Inr []
      else
        let n = real (length records);
            completed_count = count_status records ''completed'';
            running_count = count_status records ''running'';
            failed_count = count_status records ''failed''
        in case py_truediv (real completed_count) n of
             Inl e \<Rightarrow> Inl e
           | Inr cq \<Rightarrow>
               (case (if failed_count > 0
                      then (case py_truediv (real failed_count) n of
                              Inl e \<Rightarrow> Inl e
                            | Inr fq \<Rightarrow> Inr (CPct1f (fq * 100)))
                      else Inr (CStr ''0%'')) of
                  Inl e \<Rightarrow> Inl e
                | Inr failed_delta \<Rightarrow>
                    Inr [UI ''subheader'' ''statistics overview'' [],
                         UI ''columns'' [] [CNum 4],
                         UI ''metric'' ''total records'' [CNum n],
                         UI ''metric'' ''completed'' [CNum (real completed_count), CPct1f (cq * 100)],
                         UI ''metric'' ''running'' [CNum (real running_count)],
                         UI ''metric'' ''failed'' [CNum (real failed_count), failed_delta]]))"

section \<open>Effects: session state, events and exceptions\<close>

text \<open>
  \<open>st.session_state\<close> is a dictionary from keys to values. A piece of page code is a function
  from the session state to an outcome (a raised exception or a returned value), the new
  session state, and the events it produced, in order.
\<close>

type_synonym session = "string \<Rightarrow> pyval option"

type_synonym 'a io = "session \<Rightarrow> (py_exn + 'a) \<times> session \<times> ui_event list"

definition ret :: "'a \<Rightarrow> 'a io" where
  "ret x = (\<lambda>s. (Inr x, s, []))"

definition raise :: "py_exn \<Rightarrow> 'a io" where
  "raise e = (\<lambda>s. (Inl e, s, []))"

definition bind :: "'a io \<Rightarrow> ('a \<Rightarrow> 'b io) \<Rightarrow> 'b io" where
  "bind m f = (\<lambda>s.
     case m s of
       (Inl e, s1, t1) \<Rightarrow> (Inl e, s1, t1)
     | (Inr x, s1, t1) \<Rightarrow> (case f x s1 of (r, s2, t2) \<Rightarrow> (r, s2, t1 @ t2)))"

text \<open>\<open>try: m except Exception as e: h e\<close>: a script-control exception passes through.\<close>

definition try_except :: "'a io \<Rightarrow> (py_exn \<Rightarrow> 'a io) \<Rightarrow> 'a io" where
  "try_except m h = (\<lambda>s.
     case m s of
       (Inl e, s1, t1) \<Rightarrow>
         (if is_Exception e
          then (case h e s1 of (r, s2, t2) \<Rightarrow> (r, s2, t1 @ t2))
          else (Inl e, s1, t1))
     | (Inr x, s1, t1) \<Rightarrow> (Inr x, s1, t1))"

text \<open>
  \<open>try: m finally: fin\<close>: \<open>fin\<close> runs whatever \<open>m\<close> did; the outcome is that of \<open>m\<close>, unless
  \<open>fin\<close> itself raises.
\<close>

definition try_finally :: "'a io \<Rightarrow> unit io \<Rightarrow> 'a io" where
  "try_finally m fin = (\<lambda>s.
     case m s of
       (r, s1, t1) \<Rightarrow>
         (case fin s1 of
            (Inl e, s2, t2) \<Rightarrow> (Inl e, s2, t1 @ t2)
          | (Inr _, s2, t2) \<Rightarrow> (r, s2, t1 @ t2)))"

definition session_get :: "string \<Rightarrow> pyval \<Rightarrow> pyval io" where
  "session_get k dflt = (\<lambda>s. (Inr (case s k of Some v \<Rightarrow> v | None \<Rightarrow> dflt), s, []))"

definition session_contains :: "string \<Rightarrow> bool io" where
  "session_contains k = (\<lambda>s. (Inr (s k \<noteq> None), s, []))"

definition session_set :: "string \<Rightarrow> pyval \<Rightarrow> unit io" where
  "session_set k v = (\<lambda>s. (Inr (), s(k \<mapsto> v), [SessionSet k v]))"

text \<open>\<open>del st.session_state[k]\<close> raises \<open>KeyError\<close> on a key that is not there.\<close>

definition session_del :: "string \<Rightarrow> unit io" where
  "session_del k = (\<lambda>s.
     if s k = None then (Inl KeyError, s, []) else (Inr (), s(k := None), [SessionDel k]))"

definition logger :: "string \<Rightarrow> string \<Rightarrow> unit io" where
  "logger level tag = (\<lambda>s. (Inr (), s, [Log level tag]))"

definition sleep :: "real \<Rightarrow> unit io" where
  "sleep t = (\<lambda>s. (Inr (), s, [Sleep t]))"

definition rerun :: "unit io" where
  "rerun = raise RerunException"

definition lift_result :: "py_exn + 'a \<Rightarrow> 'a io" where
  "lift_result r = (\<lambda>s. (r, s, []))"

text \<open>
  What the page code reads from outside: the progress tracker's \<open>get_progress_by_id\<close>,
  \<open>format_time\<close> and \<open>format_analysis_results\<close> (modules of the application that the page
  imports), the clock, the widgets' answers, and whether a Streamlit call fails.
  \<open>get_progress_by_id\<close> takes the number of the call within one run of the page (the
  page may fetch a second time). \<open>now_elapsed\<close> and \<open>now_refresh\<close> are the two reads of
  \<open>time.time()\<close> of the progress display.
\<close>

record env =
  get_progress_by_id :: "nat \<Rightarrow> string \<Rightarrow> py_exn + pydict option"
  format_time :: "pyval \<Rightarrow> py_exn + string"
  format_analysis_results :: "pyval \<Rightarrow> py_exn + pyval"
  now_elapsed :: real
  now_refresh :: real
  button_clicked :: "string \<Rightarrow> bool"
  checkbox_value :: "string \<Rightarrow> bool"
  ui_raises :: "ui_event \<Rightarrow> py_exn option"
  path_exists :: "string \<Rightarrow> bool"
  os_remove :: "string \<Rightarrow> string option"
  redis_importable :: bool
  redis_enabled :: bool
  redis_config_ok :: bool
  redis_delete :: "string \<Rightarrow> string + int"
  listdir :: "string \<Rightarrow> string list"
  redis_all_keys :: "string list"

definition emit :: "env \<Rightarrow> ui_event \<Rightarrow> unit io" where
  "emit env ev = (\<lambda>s.
     case ui_raises env ev of Some e \<Rightarrow> (Inl e, s, []) | None \<Rightarrow> (Inr (), s, [ev]))"

definition button :: "env \<Rightarrow> string \<Rightarrow> bool io" where
  "button env key = (\<lambda>s.
     case ui_raises env (Button key) of
       Some e \<Rightarrow> (Inl e, s, [])
     | None \<Rightarrow> (Inr (button_clicked env key), s, [Button key]))"

definition checkbox :: "env \<Rightarrow> string \<Rightarrow> bool io" where
  "checkbox env key = (\<lambda>s.
     case ui_raises env (Checkbox key) of
       Some e \<Rightarrow> (Inl e, s, [])
     | None \<Rightarrow> (Inr (checkbox_value env key), s, [Checkbox key]))"

definition fetch :: "env \<Rightarrow> nat \<Rightarrow> string \<Rightarrow> pydict option io" where
  "fetch env n analysis_id = (\<lambda>s.
     (get_progress_by_id env n analysis_id, s, [Fetch analysis_id]))"

section \<open>The progress display (web/components/async\_progress\_display.py)\<close>

text \<open>The placeholder texts of the display, as UTF-8.\<close>

definition TEXT_UNKNOWN :: string where
  "TEXT_UNKNOWN = [CHR 0xE6, CHR 0x9C, CHR 0xAA, CHR 0xE7, CHR 0x9F, CHR 0xA5]"

definition TEXT_PREPARING_STAGE :: string where
  "TEXT_PREPARING_STAGE =
     [CHR 0xE5, CHR 0x87, CHR 0x86, CHR 0xE5, CHR 0xA4, CHR 0x87, CHR 0xE9, CHR 0x98, CHR 0xB6,
      CHR 0xE6, CHR 0xAE, CHR 0xB5]"

definition TEXT_INIT_ENGINE :: string where
  "TEXT_INIT_ENGINE =
     [CHR 0xE5, CHR 0x88, CHR 0x9D, CHR 0xE5, CHR 0xA7, CHR 0x8B, CHR 0xE5, CHR 0x8C, CHR 0x96,
      CHR 0xE5, CHR 0x88, CHR 0x86, CHR 0xE6, CHR 0x9E, CHR 0x90, CHR 0xE5, CHR 0xBC, CHR 0x95,
      CHR 0xE6, CHR 0x93, CHR 0x8E]"

definition TEXT_READY_TO_START :: string where
  "TEXT_READY_TO_START =
     [CHR 0xE5, CHR 0x87, CHR 0x86, CHR 0xE5, CHR 0xA4, CHR 0x87, CHR 0xE5, CHR 0xBC, CHR 0x80,
      CHR 0xE5, CHR 0xA7, CHR 0x8B, CHR 0xE5, CHR 0x88, CHR 0x86, CHR 0xE6, CHR 0x9E, CHR 0x90]"

subsection \<open>Reading the payload\<close>

text \<open>
  The \<open>.get\<close> reads of \<open>AsyncProgressDisplay._render_progress\<close> (lines 82 to 93, 138, 139 and
  145), each with the default the source gives it.
\<close>

record render_fields =
  rf_current_step :: pyval
  rf_total_steps :: pyval
  rf_progress_percentage :: pyval
  rf_status :: pyval
  rf_step_name :: pyval
  rf_step_description :: pyval
  rf_last_message :: pyval
  rf_start_time :: pyval
  rf_estimated_total_time :: pyval
  rf_elapsed_time :: pyval

definition render_progress_fields :: "pydict \<Rightarrow> render_fields" where
  "render_progress_fields progress_data =
     \<lparr> rf_current_step = dict_get progress_data ''current_step'' (PNum 0),
       rf_total_steps = dict_get progress_data ''total_steps'' (PNum 8),
       rf_progress_percentage = dict_get progress_data ''progress_percentage'' (PNum 0),
       rf_status = dict_get progress_data ''status'' (PStr ''running''),
       rf_step_name = dict_get progress_data ''current_step_name'' (PStr TEXT_UNKNOWN),
       rf_step_description = dict_get progress_data ''current_step_description'' (PStr []),
       rf_last_message = dict_get progress_data ''last_message'' (PStr []),
       rf_start_time = dict_get progress_data ''start_time'' (PNum 0),
       rf_estimated_total_time = dict_get progress_data ''estimated_total_time'' (PNum 0),
       rf_elapsed_time = dict_get progress_data ''elapsed_time'' (PNum 0) \<rparr>"

text \<open>
  The \<open>.get\<close> reads of \<open>display_static_progress_with_controls\<close> (lines 284 to 306), each
  with the default the source gives it.
\<close>

record static_fields =
  sf_status :: pyval
  sf_current_step :: pyval
  sf_current_step_name :: pyval
  sf_progress_percentage :: pyval
  sf_start_time :: pyval
  sf_estimated_total_time :: pyval
  sf_elapsed_time :: pyval
  sf_current_step_description :: pyval
  sf_last_message :: pyval

definition static_progress_fields :: "pydict \<Rightarrow> static_fields" where
  "static_progress_fields progress_data =
     \<lparr> sf_status = dict_get progress_data ''status'' (PStr ''running''),
       sf_current_step = dict_get progress_data ''current_step'' (PNum 0),
       sf_current_step_name = dict_get progress_data ''current_step_name'' (PStr TEXT_PREPARING_STAGE),
       sf_progress_percentage = dict_get progress_data ''progress_percentage'' (PNum 0),
       sf_start_time = dict_get progress_data ''start_time'' (PNum 0),
       sf_estimated_total_time = dict_get progress_data ''estimated_total_time'' (PNum 0),
       sf_elapsed_time = dict_get progress_data ''elapsed_time'' (PNum 0),
       sf_current_step_description =
         dict_get progress_data ''current_step_description'' (PStr TEXT_INIT_ENGINE),
       sf_last_message = dict_get progress_data ''last_message'' (PStr TEXT_READY_TO_START) \<rparr>"

subsection \<open>Elapsed and remaining time\<close>

text \<open>
  Lines 143 to 151 of \<open>_render_progress\<close> and lines 293 to 301 of
  \<open>display_static_progress_with_controls\<close> are the same three branches:
  \<^verbatim>\<open>
  if status == 'completed':
      elapsed_time = progress_data.get('elapsed_time', 0)
  elif start_time > 0:
      elapsed_time = time.time() - start_time
  else:
      elapsed_time = progress_data.get('elapsed_time', 0)
  \<close>
  \<open>now\<close> is what \<open>time.time()\<close> returns. \<open>start_time > 0\<close> raises on a value that is not
  a number.
\<close>

definition elapsed_time :: "real \<Rightarrow> pydict \<Rightarrow> py_exn + pyval" where
  "elapsed_time now progress_data =
     (let status = dict_get progress_data ''status'' (PStr ''running'');
          start_time = dict_get progress_data ''start_time'' (PNum 0)
      in if py_eq_str status ''completed'' then
           Inr (dict_get progress_data ''elapsed_time'' (PNum 0))
         else
           (case py_num start_time of
              Inl e \<Rightarrow> Inl e
            | Inr t0 \<Rightarrow>
                if t0 > 0 then Inr (PNum (now - t0))
                else Inr (dict_get progress_data ''elapsed_time'' (PNum 0))))"

text \<open>\<open>max(estimated_total_time - elapsed_time, 0)\<close>\<close>

definition remaining_time :: "pyval \<Rightarrow> pyval \<Rightarrow> py_exn + real" where
  "remaining_time estimated_total_time elapsed =
     (case py_num estimated_total_time of
        Inl e \<Rightarrow> Inl e
      | Inr est \<Rightarrow>
          (case py_num elapsed of
             Inl e \<Rightarrow> Inl e
           | Inr el \<Rightarrow> Inr (max (est - el) 0)))"

text \<open>
  \<open>f"{v:.1f}"\<close>: a number is formatted; a string has no format code \<open>f\<close> (\<open>ValueError\<close>);
  \<open>None\<close>, a list and a dict take no format string (\<open>TypeError\<close>).
\<close>

fun py_format_1f :: "pyval \<Rightarrow> py_exn + real" where
  "py_format_1f (PNum x) = Inr x"
| "py_format_1f (PBool b) = Inr (if b then 1 else 0)"
| "py_format_1f (PStr _) = Inl ValueError"
| "py_format_1f _ = Inl TypeError"

text \<open>
  \<open>{'running': ..., 'completed': ..., 'failed': ...}.get(status, <running icon>)\<close>: a list or
  a dict is not hashable and makes the lookup raise.
\<close>

fun status_icon :: "pyval \<Rightarrow> py_exn + string" where
  "status_icon (PList _) = Inl TypeError"
| "status_icon (PDict _) = Inl TypeError"
| "status_icon v =
     Inr (if v = PStr ''completed'' then ''icon-completed''
          else if v = PStr ''failed'' then ''icon-failed''
          else ''icon-running'')"

subsection \<open>The refresh-rate limiter\<close>

text \<open>
  \<^verbatim>\<open>
  research_depth = progress_data.get('steps', [{}])[0].get('research_depth', 2) \
                       if progress_data.get('steps') else 2
  \<close>
  A non-empty string has a first character, which has no \<open>get\<close>; a non-empty dict (its keys
  are strings) has no key \<open>0\<close>; a number is not subscriptable.
\<close>

definition research_depth_of :: "pydict \<Rightarrow> py_exn + pyval" where
  "research_depth_of progress_data =
     (if py_truthy (dict_get progress_data ''steps'' PNone) then
        (case dict_get progress_data ''steps'' (PList [PDict []]) of
           PList [] \<Rightarrow> Inl IndexError
         | PList (step0 # _) \<Rightarrow>
             (case step0 of
                PDict d \<Rightarrow> Inr (dict_get d ''research_depth'' (PNum 2))
              | _ \<Rightarrow> Inl AttributeError)
         | PStr _ \<Rightarrow> Inl AttributeError
         | PDict _ \<Rightarrow> Inl KeyError
         | _ \<Rightarrow> Inl TypeError)
      else Inr (PNum 2))"

text \<open>\<open>protection_interval = 5 if research_depth == 1 else 2\<close>\<close>

definition protection_interval :: "pyval \<Rightarrow> real" where
  "protection_interval research_depth = (if py_eq_num research_depth 1 then 5 else 2)"

text \<open>\<open>sleep_time = 6 if research_depth == 1 else 3\<close>\<close>

definition sleep_time :: "pyval \<Rightarrow> real" where
  "sleep_time research_depth = (if py_eq_num research_depth 1 then 6 else 3)"

text \<open>\<open>current_time - last_refresh_time >= protection_interval\<close>\<close>

definition refresh_allowed :: "real \<Rightarrow> pyval \<Rightarrow> real \<Rightarrow> py_exn + bool" where
  "refresh_allowed current_time last_refresh_time interval =
     (case py_num last_refresh_time of
        Inl e \<Rightarrow> Inl e
      | Inr t_last \<Rightarrow> Inr (interval \<le> current_time - t_last))"

subsection \<open>The static display with its controls\<close>

definition display_lock_key :: "string \<Rightarrow> string" where
  "display_lock_key analysis_id = ''progress_display_lock_'' @ analysis_id"

definition refresh_protection_key :: "string \<Rightarrow> string" where
  "refresh_protection_key analysis_id = ''refresh_protection_'' @ analysis_id"

definition auto_refresh_key :: "string \<Rightarrow> string" where
  "auto_refresh_key analysis_id = ''auto_refresh_unified_'' @ analysis_id"

definition auto_refresh_default_key :: "string \<Rightarrow> string" where
  "auto_refresh_default_key analysis_id = ''auto_refresh_unified_default_'' @ analysis_id"

text \<open>
  Lines 254 to 281: no progress data. \<open>status\<close> is the local variable set to
  \<open>'initializing'\<close>; the two tests on it are the source's.
\<close>

definition display_no_progress :: "env \<Rightarrow> string \<Rightarrow> bool \<Rightarrow> bool io" where
  "display_no_progress env analysis_id show_refresh_controls =
     bind (emit env (UI ''info'' ''current status: preparing to start the analysis'' [])) (\<lambda>_.
     let status = PStr ''initializing'' in
     bind (if show_refresh_controls then
             bind (emit env (UI ''columns'' [] [CNum 1, CNum 1])) (\<lambda>_.
             bind (button env (''refresh_unified_default_'' @ analysis_id)) (\<lambda>clicked.
             bind (if clicked then rerun else ret ()) (\<lambda>_.
             bind (session_contains (auto_refresh_default_key analysis_id)) (\<lambda>present.
             bind (if \<not> present
                   then session_set (auto_refresh_default_key analysis_id) (PBool True)
                   else ret ()) (\<lambda>_.
             bind (checkbox env (auto_refresh_default_key analysis_id)) (\<lambda>auto_refresh.
               if auto_refresh \<and> py_eq_str status ''running'' then
                 bind (sleep 3) (\<lambda>_. rerun)
               else if auto_refresh \<and> (py_eq_str status ''completed'' \<or> py_eq_str status ''failed'') then
                 session_set (auto_refresh_default_key analysis_id) (PBool False)
               else ret ()))))))
           else ret ()) (\<lambda>_.
     ret False))"

text \<open>Lines 284 to 332: the payload is read, the times are computed, the metrics are shown.\<close>

definition render_metrics :: "env \<Rightarrow> pydict \<Rightarrow> unit io" where
  "render_metrics env progress_data =
     (let f = static_progress_fields progress_data; status = sf_status f in
      bind (lift_result (elapsed_time (now_elapsed env) progress_data)) (\<lambda>elapsed.
      bind (lift_result (remaining_time (sf_estimated_total_time f) elapsed)) (\<lambda>remaining.
      bind (emit env (UI ''write'' ''current step'' [CVal (sf_current_step_name f)])) (\<lambda>_.
      bind (emit env (UI ''columns'' [] [CNum 3])) (\<lambda>_.
      bind (lift_result (py_format_1f (sf_progress_percentage f))) (\<lambda>pct.
      bind (emit env (UI ''metric'' ''progress'' [CPct1f pct])) (\<lambda>_.
      bind (lift_result (format_time env elapsed)) (\<lambda>elapsed_text.
      bind (emit env (UI ''metric'' ''elapsed time'' [CStr elapsed_text])) (\<lambda>_.
      bind (if py_eq_str status ''completed'' then
              emit env (UI ''metric'' ''estimated remaining'' [CStr ''completed''])
            else if py_eq_str status ''failed'' then
              emit env (UI ''metric'' ''estimated remaining'' [CStr ''interrupted''])
            else
              bind (lift_result (format_time env (PNum remaining))) (\<lambda>remaining_text.
              emit env (UI ''metric'' ''estimated remaining'' [CStr remaining_text]))) (\<lambda>_.
      bind (emit env (UI ''progress'' [] [CNum (min (pct / 100) 1)])) (\<lambda>_.
      emit env (UI ''write'' ''current task'' [CVal (sf_current_step_description f)]))))))))))))"

text \<open>Lines 347 to 358: the results are restored into the session when it has none.\<close>

definition recover_results :: "env \<Rightarrow> string \<Rightarrow> unit io" where
  "recover_results env analysis_id =
     bind (session_get ''analysis_results'' PNone) (\<lambda>existing.
     if \<not> py_truthy existing then
       try_except
         (bind (fetch env 1 analysis_id) (\<lambda>progress_data.
          case progress_data of
            None \<Rightarrow> ret ()
          | Some d \<Rightarrow>
              if d \<noteq> [] \<and> py_truthy (dict_get d ''raw_results'' PNone) then
                bind (lift_result
                        (format_analysis_results env (dict_get d ''raw_results'' PNone))) (\<lambda>formatted_results.
                if py_truthy formatted_results then
                  bind (session_set ''analysis_results'' formatted_results) (\<lambda>_.
                  session_set ''analysis_running'' (PBool False))
                else ret ())
              else ret ()))
         (\<lambda>e. emit env (UI ''error'' ''restoring the analysis results failed'' [CExn e]))
     else ret ())"

text \<open>Lines 334 to 367: the status line, and the report button of a completed analysis.\<close>

definition status_message :: "env \<Rightarrow> string \<Rightarrow> bool \<Rightarrow> pydict \<Rightarrow> unit io" where
  "status_message env analysis_id show_view_report_button progress_data =
     (let f = static_progress_fields progress_data;
          status = sf_status f;
          last_message = sf_last_message f
      in
      bind (lift_result (status_icon status)) (\<lambda>icon.
      if py_eq_str status ''completed'' then
        bind (emit env (UI ''success'' ''current status'' [CStr icon, CVal last_message])) (\<lambda>_.
        bind (if show_view_report_button
              then button env (''view_report_unified_'' @ analysis_id)
              else ret False) (\<lambda>clicked.
        if clicked then
          bind (recover_results env analysis_id) (\<lambda>_.
          bind (session_set ''show_analysis_results'' (PBool True)) (\<lambda>_.
          bind (session_set ''current_analysis_id'' (PStr analysis_id)) (\<lambda>_.
          rerun)))
        else ret ()))
      else if py_eq_str status ''failed'' then
        emit env (UI ''error'' ''current status'' [CStr icon, CVal last_message])
      else
        emit env (UI ''info'' ''current status'' [CStr icon, CVal last_message])))"

text \<open>
  Lines 374 to 411: the refresh button, the auto-refresh checkbox and the refresh
  protection, inside \<open>try ... except Exception\<close>.
\<close>

definition refresh_controls :: "env \<Rightarrow> string \<Rightarrow> pydict \<Rightarrow> unit io" where
  "refresh_controls env analysis_id progress_data =
     (let status = sf_status (static_progress_fields progress_data) in
      try_except
        (bind (session_get (refresh_protection_key analysis_id) (PNum 0)) (\<lambda>last_refresh_time.
         let current_time = now_refresh env in
         bind (lift_result (research_depth_of progress_data)) (\<lambda>research_depth.
         bind (emit env (UI ''columns'' [] [CNum 1, CNum 1])) (\<lambda>_.
         bind (button env (''refresh_unified_'' @ analysis_id)) (\<lambda>clicked.
         bind (if clicked then
                 bind (session_contains (refresh_protection_key analysis_id)) (\<lambda>present.
                 bind (if present
                       then session_del (refresh_protection_key analysis_id)
                       else ret ()) (\<lambda>_.
                 rerun))
               else ret ()) (\<lambda>_.
         bind (session_contains (auto_refresh_key analysis_id)) (\<lambda>present.
         bind (if \<not> present
               then session_set (auto_refresh_key analysis_id) (PBool True)
               else ret ()) (\<lambda>_.
         bind (checkbox env (auto_refresh_key analysis_id)) (\<lambda>auto_refresh.
           if auto_refresh \<and> py_eq_str status ''running'' then
             bind (lift_result
                     (refresh_allowed current_time last_refresh_time
                        (protection_interval research_depth))) (\<lambda>allowed.
             if allowed then
               bind (session_set (refresh_protection_key analysis_id) (PNum current_time)) (\<lambda>_.
               bind (sleep (sleep_time research_depth)) (\<lambda>_.
               rerun))
             else ret ())
           else if auto_refresh \<and> (py_eq_str status ''completed'' \<or> py_eq_str status ''failed'') then
             session_set (auto_refresh_key analysis_id) (PBool False)
           else ret ())))))))))
        (\<lambda>e. logger ''warning'' ''refresh controls update failed, skipped''))"

text \<open>Lines 283 to 415: a payload was found.\<close>

definition display_progress :: "env \<Rightarrow> string \<Rightarrow> bool \<Rightarrow> bool \<Rightarrow> pydict \<Rightarrow> bool io" where
  "display_progress env analysis_id show_refresh_controls show_view_report_button progress_data =
     (let status = sf_status (static_progress_fields progress_data) in
      bind (render_metrics env progress_data) (\<lambda>_.
      bind (status_message env analysis_id show_view_report_button progress_data) (\<lambda>_.
      bind (if show_refresh_controls \<and>
               (py_eq_str status ''running'' \<or> py_eq_str status ''initializing'')
            then refresh_controls env analysis_id progress_data
            else ret ()) (\<lambda>_.
      ret (py_eq_str status ''completed'' \<or> py_eq_str status ''failed'')))))"

text \<open>Lines 417 to 420: the \<open>finally\<close> clause.\<close>

definition release_display_lock :: "string \<Rightarrow> unit io" where
  "release_display_lock analysis_id =
     bind (session_contains (display_lock_key analysis_id)) (\<lambda>present.
     if present then session_del (display_lock_key analysis_id) else ret ())"

definition display_static_progress_with_controls ::
    "env \<Rightarrow> string \<Rightarrow> bool \<Rightarrow> bool \<Rightarrow> bool io" where
  "display_static_progress_with_controls env analysis_id show_refresh_controls show_view_report_button =
     bind (session_get (display_lock_key analysis_id) (PBool False)) (\<lambda>locked.
     if py_truthy locked then
       bind (logger ''debug'' ''display locked: duplicate display skipped'') (\<lambda>_.
       ret False)
     else
       bind (session_set (display_lock_key analysis_id) (PBool True)) (\<lambda>_.
       try_finally
         (bind (emit env (UI ''markdown'' ''analysis progress'' [])) (\<lambda>_.
          bind (fetch env 0 analysis_id) (\<lambda>progress_data.
          case progress_data of
            None \<Rightarrow> display_no_progress env analysis_id show_refresh_controls
          | Some d \<Rightarrow>
              if d = [] then display_no_progress env analysis_id show_refresh_controls
              else display_progress env analysis_id show_refresh_controls
                     show_view_report_button d)))
         (release_display_lock analysis_id)))"

definition display_unified_progress :: "env \<Rightarrow> string \<Rightarrow> bool \<Rightarrow> bool \<Rightarrow> bool io" where
  "display_unified_progress env analysis_id show_refresh_controls show_view_report_button =
     display_static_progress_with_controls env analysis_id show_refresh_controls
       show_view_report_button"

section \<open>Deleting a record (web/modules/analysis\_history.py)\<close>

text \<open>The two addresses of a record: its file in the data directory and its Redis key.\<close>

definition progress_file :: "string \<Rightarrow> string" where
  "progress_file analysis_id = ''./data/progress_'' @ analysis_id @ ''.json''"

definition redis_key :: "string \<Rightarrow> string" where
  "redis_key analysis_id = ''progress:'' @ analysis_id"

text \<open>
  The storage operations, each recorded with the address it is given. \<open>os.remove\<close> and the
  Redis client raise ordinary exceptions; \<open>int(os.getenv('REDIS_PORT', 6379))\<close> and
  \<open>int(os.getenv('REDIS_DB', 0))\<close> raise \<open>ValueError\<close> on a value that is not a number.
\<close>

definition fs_exists :: "env \<Rightarrow> string \<Rightarrow> bool io" where
  "fs_exists env p = (\<lambda>s. (Inr (path_exists env p), s, [Storage ''os.path.exists'' p]))"

definition fs_remove :: "env \<Rightarrow> string \<Rightarrow> unit io" where
  "fs_remove env p = (\<lambda>s.
     ((case os_remove env p of None \<Rightarrow> Inr () | Some msg \<Rightarrow> Inl (OSError msg)),
      s, [Storage ''os.remove'' p]))"

definition redis_client :: "env \<Rightarrow> unit io" where
  "redis_client env = (if redis_config_ok env then ret () else raise ValueError)"

definition redis_client_delete :: "env \<Rightarrow> string \<Rightarrow> int io" where
  "redis_client_delete env k = (\<lambda>s.
     ((case redis_delete env k of Inl msg \<Rightarrow> Inl (RedisError msg) | Inr n \<Rightarrow> Inr n),
      s, [Storage ''redis.delete'' k]))"

text \<open>
  Lines 441 to 448 and 451 to 482: each backend in a \<open>try\<close> of its own. A block yields what
  it adds to \<open>success_count\<close> and to \<open>error_messages\<close>; an error message is the text the
  source puts before the exception, and the exception.
\<close>

definition delete_file_record :: "env \<Rightarrow> string \<Rightarrow> (nat \<times> (string \<times> py_exn) list) io" where
  "delete_file_record env analysis_id =
     try_except
       (bind (fs_exists env (progress_file analysis_id)) (\<lambda>found.
        if found then
          bind (fs_remove env (progress_file analysis_id)) (\<lambda>_.
          bind (logger ''info'' ''file record deleted'') (\<lambda>_.
          ret (1, [])))
        else ret (0, [])))
       (\<lambda>e. ret (0, [(''file delete failed'', e)]))"

definition delete_redis_record :: "env \<Rightarrow> string \<Rightarrow> (nat \<times> (string \<times> py_exn) list) io" where
  "delete_redis_record env analysis_id =
     try_except
       (if redis_enabled env then
          bind (redis_client env) (\<lambda>_.
          bind (redis_client_delete env (redis_key analysis_id)) (\<lambda>result.
          if result > 0 then
            bind (logger ''info'' ''redis record deleted'') (\<lambda>_.
            ret (1, []))
          else ret (0, [])))
        else ret (0, []))
       (\<lambda>e. ret (0, [(''redis delete failed'', e)]))"

fun emit_all :: "env \<Rightarrow> ui_event list \<Rightarrow> unit io" where
  "emit_all env [] = ret ()"
| "emit_all env (ev # evs) = bind (emit env ev) (\<lambda>_. emit_all env evs)"

text \<open>
  \<open>delete_analysis_record\<close>: \<open>import redis\<close> first (inside the outer \<open>try\<close>), the two
  backends, then the report. A successful deletion ends in \<open>st.rerun()\<close>.
\<close>

definition delete_analysis_record :: "env \<Rightarrow> string \<Rightarrow> unit io" where
  "delete_analysis_record env analysis_id =
     try_except
       (bind (if redis_importable env then ret () else raise ImportError) (\<lambda>_.
        bind (delete_file_record env analysis_id) (\<lambda>(file_count, file_errors).
        bind (delete_redis_record env analysis_id) (\<lambda>(redis_count, redis_errors).
        let success_count = file_count + redis_count;
            error_messages = file_errors @ redis_errors
        in
        if success_count > 0 then
          bind (emit env (UI ''success'' ''records deleted'' [CNum (real success_count)])) (\<lambda>_.
          bind (emit_all env (map (\<lambda>(msg, e). UI ''warning'' msg [CExn e]) error_messages)) (\<lambda>_.
          rerun))
        else
          bind (emit env (UI ''error'' ''delete failed: no record to delete was found'' [])) (\<lambda>_.
          emit_all env (map (\<lambda>(msg, e). UI ''error'' msg [CExn e]) error_messages))))))
       (\<lambda>e.
          bind (emit env (UI ''error'' ''delete operation failed'' [CExn e])) (\<lambda>_.
          logger ''error'' ''deleting the analysis record failed''))"

section \<open>Listing the stored records (analyze\_data\_storage.py)\<close>

text \<open>
  Shell-style matching of a name against a pattern, for the two wildcards \<open>*\<close> (any run of
  characters) and \<open>?\<close> (one character); the patterns of the listing scans use no other
  special character.
\<close>

fun fnmatch :: "string \<Rightarrow> string \<Rightarrow> bool" where
  "fnmatch [] [] = True"
| "fnmatch (c # cs) [] = False"
| "fnmatch [] (p # ps) = (p = CHR ''*'' \<and> fnmatch [] ps)"
| "fnmatch (c # cs) (p # ps) =
     (if p = CHR ''*'' then fnmatch (c # cs) ps \<or> fnmatch cs (p # ps)
      else (p = CHR ''?'' \<or> c = p) \<and> fnmatch cs ps)"

text \<open>
  \<open>glob.glob(os.path.join(data_dir, "progress_*.json"))\<close> with \<open>data_dir = "./data"\<close>: the
  entries of the directory whose name matches, each joined to the directory.
\<close>

definition glob_progress_files :: "env \<Rightarrow> string list" where
  "glob_progress_files env =
     map (\<lambda>name. ''./data/'' @ name)
       (filter (\<lambda>name. fnmatch name ''progress_*.json'') (listdir env ''./data''))"

text \<open>\<open>redis_client.keys("progress:*")\<close>\<close>

definition redis_progress_keys :: "env \<Rightarrow> string list" where
  "redis_progress_keys env = filter (\<lambda>k. fnmatch k ''progress:*'') (redis_all_keys env)"

section \<open>Observers and sample inputs\<close>

text \<open>
  \<open>st.session_state.get(display_lock_key, False)\<close> read as a condition: the display lock of
  an analysis is held.
\<close>

definition display_lock_held :: "session \<Rightarrow> string \<Rightarrow> bool" where
  "display_lock_held s analysis_id =
     py_truthy (case s (display_lock_key analysis_id) of Some v \<Rightarrow> v | None \<Rightarrow> PBool False)"



text \<open>
  A quiet environment: no stored progress, no widget pressed, the auto-refresh box ticked,
  no call failing, both backends holding the record.
\<close>

definition env_quiet :: env where
  "env_quiet =
     \<lparr> get_progress_by_id = (\<lambda>n a. Inr None),
       format_time = (\<lambda>v. Inr ''0s''),
       format_analysis_results = (\<lambda>v. Inr v),
       now_elapsed = 1000,
       now_refresh = 1000,
       button_clicked = (\<lambda>k. False),
       checkbox_value = (\<lambda>k. True),
       ui_raises = (\<lambda>ev. None),
       path_exists = (\<lambda>p. True),
       os_remove = (\<lambda>p. None),
       redis_importable = True,
       redis_enabled = True,
       redis_config_ok = True,
       redis_delete = (\<lambda>k. Inr 1),
       listdir = (\<lambda>d. [''progress_job1.json'', ''notes.txt'']),
       redis_all_keys = [''progress:job1'', ''session:9''] \<rparr>"

text \<open>Three history records: completed, running with no \<open>last_update\<close>, failed.\<close>

definition sample_history :: "pydict list" where
  "sample_history =
     [[(''analysis_id'', PStr ''a''), (''status'', PStr ''completed''), (''last_update'', PNum 500)],
      [(''analysis_id'', PStr ''b''), (''status'', PStr ''running'')],
      [(''analysis_id'', PStr ''c''), (''status'', PStr ''failed''), (''last_update'', PNum 900)]]"







text \<open>An environment in which showing the "preparing" message fails.\<close>

definition env_render_fails :: env where
  "env_render_fails =
     env_quiet \<lparr> ui_raises := (\<lambda>ev.
       if ev = UI ''info'' ''current status: preparing to start the analysis'' []
       then Some (StreamlitError ''element not found'') else None) \<rparr>"

text \<open>A session in which the display lock of \<open>job1\<close> is held.\<close>

definition session_locked :: session where
  "session_locked = Map.empty(''progress_display_lock_job1'' \<mapsto> PBool True)"

text \<open>
  What a backend did with the record, as the environment decides it. The file backend: the
  file \<open>./data/progress_{id}.json\<close> is removed, is not there, or \<open>os.remove\<close> raises.
  The Redis backend, when it is enabled: the key \<open>progress:{id}\<close> is deleted, no key was
  deleted, or the configuration or the client raises. \<open>removed_count\<close> is the number of
  backends that removed the record, and \<open>backend_failures\<close> lists, file first, the
  message and the exception of each backend that raised.
\<close>

datatype backend_outcome = Removed | NotFound | Failed py_exn

definition file_backend_outcome :: "env \<Rightarrow> string \<Rightarrow> backend_outcome" where
  "file_backend_outcome env analysis_id =
     (if path_exists env (''./data/progress_'' @ analysis_id @ ''.json'') then
        (case os_remove env (''./data/progress_'' @ analysis_id @ ''.json'') of
           None \<Rightarrow> Removed
         | Some msg \<Rightarrow> Failed (OSError msg))
      else NotFound)"

definition redis_backend_outcome :: "env \<Rightarrow> string \<Rightarrow> backend_outcome" where
  "redis_backend_outcome env analysis_id =
     (if \<not> redis_config_ok env then Failed ValueError
      else (case redis_delete env (''progress:'' @ analysis_id) of
              Inl msg \<Rightarrow> Failed (RedisError msg)
            | Inr n \<Rightarrow> if n > 0 then Removed else NotFound))"

definition removed_count :: "env \<Rightarrow> string \<Rightarrow> nat" where
  "removed_count env analysis_id =
     (if file_backend_outcome env analysis_id = Removed then 1 else 0) +
     (if redis_enabled env \<and> redis_backend_outcome env analysis_id = Removed then 1 else 0)"

definition backend_failures :: "env \<Rightarrow> string \<Rightarrow> (string \<times> py_exn) list" where
  "backend_failures env analysis_id =
     (case file_backend_outcome env analysis_id of
        Failed e \<Rightarrow> [(''file delete failed'', e)]
      | other \<Rightarrow> [])
     @ (if redis_enabled env then
          (case redis_backend_outcome env analysis_id of
             Failed e \<Rightarrow> [(''redis delete failed'', e)]
           | other \<Rightarrow> [])
        else [])"

text \<open>What the page shows: the widget calls among the events.\<close>

fun shown_on_page :: "ui_event list \<Rightarrow> ui_event list" where
  "shown_on_page [] = []"
| "shown_on_page (UI kind msg args # evs) = UI kind msg args # shown_on_page evs"
| "shown_on_page (ev # evs) = shown_on_page evs"

text \<open>
  Environments in which the record has expired from Redis, in which the file is not there
  while Redis holds the record, in which the file cannot be removed while Redis holds the
  record, and in which the Redis package is not installed and Redis is switched off.
\<close>

definition env_expired_in_redis :: env where
  "env_expired_in_redis = env_quiet \<lparr> redis_delete := (\<lambda>k. Inr 0) \<rparr>"

definition env_file_missing :: env where
  "env_file_missing = env_quiet \<lparr> path_exists := (\<lambda>p. False) \<rparr>"

definition env_file_denied :: env where
  "env_file_denied = env_quiet \<lparr> os_remove := (\<lambda>p. Some ''permission denied'') \<rparr>"

definition env_no_redis_package :: env where
  "env_no_redis_package = env_quiet \<lparr> redis_importable := False, redis_enabled := False \<rparr>"

text \<open>
  A payload with the identity fields only; a failed and a completed analysis, both started
  at 100 with a stored elapsed time of 50; an environment that serves the failed one and
  whose \<open>format_time\<close> tells the stored value from a reading of the clock.
\<close>

definition payload_identity_only :: pydict where
  "payload_identity_only = [(''analysis_id'', PStr ''job1''), (''status'', PStr ''running'')]"

definition payload_failed :: pydict where
  "payload_failed =
     [(''analysis_id'', PStr ''job1''), (''status'', PStr ''failed''), (''start_time'', PNum 100),
      (''elapsed_time'', PNum 50)]"

definition payload_completed :: pydict where
  "payload_completed =
     [(''analysis_id'', PStr ''job1''), (''status'', PStr ''completed''), (''start_time'', PNum 100),
      (''elapsed_time'', PNum 50)]"

definition env_failed :: env where
  "env_failed =
     env_quiet \<lparr> get_progress_by_id := (\<lambda>n a. Inr (Some payload_failed)),
                 format_time := (\<lambda>v. if v = PNum 50 then Inr ''50s''
                                      else if v = PNum 900 then Inr ''900s''
                                      else Inr ''other'') \<rparr>"

text \<open>
  A running analysis with a fast plan (research depth 1), one with no step plan (depth 2 by
  default), and a session whose last protected refresh was three seconds before the clock
  of \<open>env_quiet\<close>.
\<close>

definition payload_running_fast :: pydict where
  "payload_running_fast =
     [(''analysis_id'', PStr ''job1''), (''status'', PStr ''running''), (''start_time'', PNum 900),
      (''steps'', PList [PDict [(''name'', PStr ''plan''), (''research_depth'', PNum 1)]])]"

definition payload_running_plain :: pydict where
  "payload_running_plain =
     [(''analysis_id'', PStr ''job1''), (''status'', PStr ''running''), (''start_time'', PNum 900)]"

definition env_running_fast :: env where
  "env_running_fast =
     env_quiet \<lparr> get_progress_by_id := (\<lambda>n a. Inr (Some payload_running_fast)) \<rparr>"

definition env_running_plain :: env where
  "env_running_plain =
     env_quiet \<lparr> get_progress_by_id := (\<lambda>n a. Inr (Some payload_running_plain)) \<rparr>"

definition session_refreshed_recently :: session where
  "session_refreshed_recently = Map.empty(''refresh_protection_job1'' \<mapsto> PNum 997)"

text \<open>
  A running analysis whose step plan has the given research depth, the environment that
  serves it, and a session whose last protected refresh was one second before the clock of
  \<open>env_quiet\<close>.
\<close>

definition payload_with_depth :: "real \<Rightarrow> pydict" where
  "payload_with_depth d =
     [(''analysis_id'', PStr ''job1''), (''status'', PStr ''running''), (''start_time'', PNum 900),
      (''progress_percentage'', PNum 40), (''estimated_total_time'', PNum 300),
      (''steps'', PList [PDict [(''name'', PStr ''plan''), (''research_depth'', PNum d)],
                         PDict [(''name'', PStr ''report''), (''research_depth'', PNum d)]])]"

definition env_with_depth :: "real \<Rightarrow> env" where
  "env_with_depth d =
     env_quiet \<lparr> get_progress_by_id := (\<lambda>n a. Inr (Some (payload_with_depth d))) \<rparr>"

definition session_refreshed_just_now :: session where
  "session_refreshed_just_now = Map.empty(''refresh_protection_job1'' \<mapsto> PNum 999)"

text \<open>\<open>st.session_state.get(refresh_protection_key, 0)\<close>\<close>

definition last_refresh_time :: "session \<Rightarrow> string \<Rightarrow> pyval" where
  "last_refresh_time s analysis_id =
     (case s (refresh_protection_key analysis_id) of Some v \<Rightarrow> v | None \<Rightarrow> PNum 0)"

text \<open>Every event a piece of page code produces satisfies \<open>P\<close>.\<close>

definition emits_only :: "(ui_event \<Rightarrow> bool) \<Rightarrow> 'a io \<Rightarrow> bool" where
  "emits_only P m = (\<forall>s ev. ev \<in> set (snd (snd (m s))) \<longrightarrow> P ev)"

text \<open>A pattern without wildcards.\<close>

definition literal :: "string \<Rightarrow> bool" where
  "literal p = (CHR ''*'' \<notin> set p \<and> CHR ''?'' \<notin> set p)"

text \<open>A storage event addresses the file or the Redis key of the analysis.\<close>

fun addresses_record :: "string \<Rightarrow> ui_event \<Rightarrow> bool" where
  "addresses_record analysis_id (Storage op k) =
     (k = progress_file analysis_id \<or> k = redis_key analysis_id)"
| "addresses_record analysis_id ev = True"

text \<open>
  Three properties of a piece of page code, used to carry facts through the sequencing of
  calls: it never sleeps; where it returns a value it has left the session as it found it;
  it never returns a value (it ends in a rerun or an exception).
\<close>

definition never_sleeps :: "'a io \<Rightarrow> bool" where
  "never_sleeps m = (\<forall>s t. Sleep t \<notin> set (snd (snd (m s))))"

definition returns_unchanged :: "'a io \<Rightarrow> bool" where
  "returns_unchanged m = (\<forall>s x s' evs. m s = (Inr x, s', evs) \<longrightarrow> s' = s)"

definition never_returns :: "'a io \<Rightarrow> bool" where
  "never_returns m = (\<forall>s x s' evs. m s \<noteq> (Inr x, s', evs))"

section \<open>Running page code step by step\<close>

lemma bind_ret [simp]: "bind (ret x) f = f x"
  by (simp add: bind_def ret_def fun_eq_iff split: prod.splits)

lemma bind_raise [simp]: "bind (raise e) f = raise e"
  by (simp add: bind_def raise_def fun_eq_iff)

lemma bind_session_get [simp]:
  "bind (session_get k d) f s = f (case s k of Some v \<Rightarrow> v | None \<Rightarrow> d) s"
  by (simp add: bind_def session_get_def split: prod.splits)

lemma bind_session_contains [simp]:
  "bind (session_contains k) f s = f (s k \<noteq> None) s"
  by (simp add: bind_def session_contains_def split: prod.splits)

lemma bind_session_set [simp]:
  "bind (session_set k v) f s =
     (case f () (s(k \<mapsto> v)) of (r, s', t) \<Rightarrow> (r, s', SessionSet k v # t))"
  by (simp add: bind_def session_set_def split: prod.splits)

lemma bind_logger [simp]:
  "bind (logger l m) f s = (case f () s of (r, s', t) \<Rightarrow> (r, s', Log l m # t))"
  by (simp add: bind_def logger_def split: prod.splits)

lemmas io_defs =
  ret_def raise_def bind_def try_except_def try_finally_def session_get_def
  session_contains_def session_set_def session_del_def logger_def sleep_def rerun_def
  lift_result_def emit_def button_def checkbox_def fetch_def is_Exception_def

lemmas key_defs =
  display_lock_key_def refresh_protection_key_def auto_refresh_key_def
  auto_refresh_default_key_def

section \<open>The history page\<close>









text \<open>
  C10. \<open>display_statistics\<close> never divides by zero: it shows nothing for an empty list and
  returns with its events for every list; on a non-empty list the two percentages are the
  counts divided by the list's length, and the failed percentage is the text \<open>0%\<close> when no
  record failed.
\<close>

theorem display_statistics_no_zero_division:
  "display_statistics [] = Inr []
   \<and> (\<exists>evs. display_statistics records = Inr evs)
   \<and> display_statistics records \<noteq> Inl ZeroDivisionError
   \<and> (records \<noteq> [] \<longrightarrow>
        real (length records) \<noteq> 0 \<and>
        display_statistics records =
          Inr [UI ''subheader'' ''statistics overview'' [],
               UI ''columns'' [] [CNum 4],
               UI ''metric'' ''total records'' [CNum (real (length records))],
               UI ''metric'' ''completed''
                 [CNum (real (count_status records ''completed'')),
                  CPct1f (real (count_status records ''completed'') / real (length records) * 100)],
               UI ''metric'' ''running'' [CNum (real (count_status records ''running''))],
               UI ''metric'' ''failed''
                 [CNum (real (count_status records ''failed'')),
                  if count_status records ''failed'' > 0
                  then CPct1f (real (count_status records ''failed'') / real (length records) * 100)
                  else CStr ''0%'']])"
  by (auto simp: display_statistics_def py_truediv_def Let_def)

theorem display_statistics_no_zero_division_witness:
  "sample_history \<noteq> []
   \<and> display_statistics sample_history =
       Inr [UI ''subheader'' ''statistics overview'' [],
            UI ''columns'' [] [CNum 4],
            UI ''metric'' ''total records'' [CNum 3],
            UI ''metric'' ''completed'' [CNum 1, CPct1f (100 / 3)],
            UI ''metric'' ''running'' [CNum 1],
            UI ''metric'' ''failed'' [CNum 1, CPct1f (100 / 3)]]
   \<and> display_statistics (butlast sample_history) =
       Inr [UI ''subheader'' ''statistics overview'' [],
            UI ''columns'' [] [CNum 4],
            UI ''metric'' ''total records'' [CNum 2],
            UI ''metric'' ''completed'' [CNum 1, CPct1f 50],
            UI ''metric'' ''running'' [CNum 1],
            UI ''metric'' ''failed'' [CNum 0, CStr ''0%'']]"
  using display_statistics_no_zero_division[of sample_history]
        display_statistics_no_zero_division[of "butlast sample_history"]
  by (simp add: sample_history_def count_status_def dict_get_def py_eq_str_def)

section \<open>The display lock\<close>

lemma release_lock_clears:
  "release_display_lock aid s = (r, s', t) \<Longrightarrow> s' (display_lock_key aid) = None"
  by (auto simp: release_display_lock_def session_del_def ret_def split: if_splits)

lemma try_finally_release:
  "try_finally m (release_display_lock aid) s = (r, s', t) \<Longrightarrow>
   s' (display_lock_key aid) = None"
  by (auto simp: try_finally_def split: prod.splits sum.splits dest: release_lock_clears)

text \<open>
  C1. A call of \<open>display_static_progress_with_controls\<close> that finds the display lock of its
  analysis held returns \<open>False\<close> at once: the session is unchanged and the only event is the
  debug line of the logger, so nothing is rendered and no progress is fetched. A call that
  finds the lock free sets it first: the setting of the lock is the first event of the call,
  before every widget and before the fetch.
\<close>

theorem display_lock_drops_overlapping_call:
  "(display_lock_held s analysis_id \<longrightarrow>
      display_static_progress_with_controls env analysis_id show_refresh show_report s =
        (Inr False, s, [Log ''debug'' ''display locked: duplicate display skipped'']))
   \<and> (\<not> display_lock_held s analysis_id \<longrightarrow>
      (\<exists>r s' evs.
         display_static_progress_with_controls env analysis_id show_refresh show_report s =
           (r, s', SessionSet (display_lock_key analysis_id) (PBool True) # evs)))"
  by (auto simp: display_static_progress_with_controls_def display_lock_held_def ret_def
      split: prod.splits)

theorem display_lock_drops_overlapping_call_witness:
  "display_lock_held session_locked ''job1''
   \<and> display_static_progress_with_controls env_quiet ''job1'' True True session_locked =
       (Inr False, session_locked, [Log ''debug'' ''display locked: duplicate display skipped''])
   \<and> \<not> display_lock_held Map.empty ''job1''
   \<and> (\<exists>r s' evs.
         display_static_progress_with_controls env_quiet ''job1'' True True Map.empty =
           (r, s', SessionSet ''progress_display_lock_job1'' (PBool True) # evs))"
  using display_lock_drops_overlapping_call[of session_locked "''job1''" env_quiet True True]
        display_lock_drops_overlapping_call[of Map.empty "''job1''" env_quiet True True]
  by (simp add: display_lock_held_def display_lock_key_def session_locked_def)

text \<open>
  C9. A call of \<open>display_static_progress_with_controls\<close> that acquires the display lock
  leaves the session without the lock key, whatever the outcome of the call: a returned
  value, a rerun, or an exception raised while rendering or fetching.
\<close>

theorem display_lock_always_released:
  assumes "\<not> display_lock_held s analysis_id"
  shows "fst (snd (display_static_progress_with_controls env analysis_id show_refresh
                     show_report s))
           (display_lock_key analysis_id) = None"
  using assms
  by (auto simp: display_static_progress_with_controls_def display_lock_held_def
      split: prod.splits dest: try_finally_release)

theorem display_lock_always_released_witness:
  "\<not> display_lock_held Map.empty ''job1''
   \<and> fst (display_static_progress_with_controls env_render_fails ''job1'' True True Map.empty) =
       Inl (StreamlitError ''element not found'')
   \<and> fst (snd (display_static_progress_with_controls env_render_fails ''job1'' True True
                  Map.empty)) ''progress_display_lock_job1'' = None
   \<and> fst (display_static_progress_with_controls env_quiet ''job1'' True True Map.empty) =
       Inr False
   \<and> fst (snd (display_static_progress_with_controls env_quiet ''job1'' True True
                  Map.empty)) ''progress_display_lock_job1'' = None"
proof -
  have free: "\<not> display_lock_held Map.empty ''job1''"
    by (simp add: display_lock_held_def)
  have raised:
    "fst (display_static_progress_with_controls env_render_fails ''job1'' True True Map.empty) =
       Inl (StreamlitError ''element not found'')"
    by (simp add: display_static_progress_with_controls_def display_no_progress_def
        release_display_lock_def env_render_fails_def env_quiet_def io_defs key_defs)
  have returned:
    "fst (display_static_progress_with_controls env_quiet ''job1'' True True Map.empty) =
       Inr False"
    by (simp add: display_static_progress_with_controls_def display_no_progress_def
        release_display_lock_def env_quiet_def io_defs key_defs py_eq_str_def Let_def)
  from display_lock_always_released[OF free, of env_render_fails True True]
       display_lock_always_released[OF free, of env_quiet True True]
       free raised returned
  show ?thesis by (simp add: display_lock_key_def)
qed

section \<open>Facts carried through the sequencing of calls\<close>

lemma never_sleepsD: "never_sleeps m \<Longrightarrow> m s = (r, s', evs) \<Longrightarrow> Sleep t \<notin> set evs"
  unfolding never_sleeps_def
proof -
  assume a: "\<forall>s t. Sleep t \<notin> set (snd (snd (m s)))" and b: "m s = (r, s', evs)"
  from a have "Sleep t \<notin> set (snd (snd (m s)))" by blast
  with b show ?thesis by simp
qed

lemma never_sleepsI:
  "(\<And>s r s' evs t. m s = (r, s', evs) \<Longrightarrow> Sleep t \<notin> set evs) \<Longrightarrow> never_sleeps m"
  unfolding never_sleeps_def
proof (intro allI)
  fix s t
  assume a: "\<And>s r s' evs t. m s = (r, s', evs) \<Longrightarrow> Sleep t \<notin> set evs"
  obtain r s' evs where e: "m s = (r, s', evs)" by (cases "m s") auto
  from a[OF e] e show "Sleep t \<notin> set (snd (snd (m s)))" by simp
qed

lemma never_sleeps_bind:
  assumes m: "never_sleeps m" and f: "\<And>x. never_sleeps (f x)"
  shows "never_sleeps (bind m f)"
proof (rule never_sleepsI)
  fix s r s' evs t
  assume run: "bind m f s = (r, s', evs)"
  obtain r1 s1 t1 where ms: "m s = (r1, s1, t1)" by (cases "m s") auto
  have n1: "Sleep t \<notin> set t1" using never_sleepsD[OF m ms] .
  show "Sleep t \<notin> set evs"
  proof (cases r1)
    case (Inl e)
    with run ms have "evs = t1" by (simp add: bind_def)
    with n1 show ?thesis by simp
  next
    case (Inr x)
    obtain r2 s2 t2 where fs: "f x s1 = (r2, s2, t2)" by (cases "f x s1") auto
    have n2: "Sleep t \<notin> set t2" using never_sleepsD[OF f fs] .
    from run ms Inr fs have "evs = t1 @ t2" by (simp add: bind_def)
    with n1 n2 show ?thesis by simp
  qed
qed

lemma never_sleeps_try_except:
  assumes m: "never_sleeps m" and h: "\<And>e. never_sleeps (h e)"
  shows "never_sleeps (try_except m h)"
proof (rule never_sleepsI)
  fix s r s' evs t
  assume run: "try_except m h s = (r, s', evs)"
  obtain r1 s1 t1 where ms: "m s = (r1, s1, t1)" by (cases "m s") auto
  have n1: "Sleep t \<notin> set t1" using never_sleepsD[OF m ms] .
  show "Sleep t \<notin> set evs"
  proof (cases r1)
    case (Inr x)
    with run ms have "evs = t1" by (simp add: try_except_def)
    with n1 show ?thesis by simp
  next
    case (Inl e)
    obtain r2 s2 t2 where hs: "h e s1 = (r2, s2, t2)" by (cases "h e s1") auto
    have n2: "Sleep t \<notin> set t2" using never_sleepsD[OF h hs] .
    from run ms Inl hs have "evs = t1 \<or> evs = t1 @ t2"
      by (simp add: try_except_def split: if_splits)
    with n1 n2 show ?thesis by auto
  qed
qed

lemma never_sleeps_prims:
  "never_sleeps (ret x)" "never_sleeps (raise e)" "never_sleeps rerun"
  "never_sleeps (lift_result r)" "never_sleeps (emit env (UI a b c))"
  "never_sleeps (button env k)" "never_sleeps (checkbox env k)" "never_sleeps (fetch env n a)"
  "never_sleeps (session_get k d)" "never_sleeps (session_contains k)"
  "never_sleeps (session_set k v)" "never_sleeps (session_del k)" "never_sleeps (logger l g)"
  by (simp_all add: never_sleeps_def io_defs split: option.splits)

lemma returns_unchanged_bind:
  assumes m: "returns_unchanged m" and f: "\<And>x. returns_unchanged (f x)"
  shows "returns_unchanged (bind m f)"
  unfolding returns_unchanged_def
proof (intro allI impI)
  fix s y s' evs
  assume run: "bind m f s = (Inr y, s', evs)"
  obtain r1 s1 t1 where ms: "m s = (r1, s1, t1)" by (cases "m s") auto
  show "s' = s"
  proof (cases r1)
    case (Inl e)
    with run ms show ?thesis by (simp add: bind_def)
  next
    case (Inr x)
    with m ms have s1: "s1 = s" unfolding returns_unchanged_def by blast
    obtain r2 s2 t2 where fs: "f x s1 = (r2, s2, t2)" by (cases "f x s1") auto
    from run ms Inr fs have "r2 = Inr y" "s2 = s'" by (simp_all add: bind_def)
    with f[of x] fs have "s' = s1" unfolding returns_unchanged_def by blast
    with s1 show ?thesis by simp
  qed
qed

lemma never_returns_bind:
  assumes f: "\<And>x. never_returns (f x)"
  shows "never_returns (bind m f)"
  unfolding never_returns_def
proof (intro allI notI)
  fix s y s' evs
  assume run: "bind m f s = (Inr y, s', evs)"
  obtain r1 s1 t1 where ms: "m s = (r1, s1, t1)" by (cases "m s") auto
  show False
  proof (cases r1)
    case (Inl e)
    with run ms show ?thesis by (simp add: bind_def)
  next
    case (Inr x)
    obtain r2 s2 t2 where fs: "f x s1 = (r2, s2, t2)" by (cases "f x s1") auto
    from run ms Inr fs have "r2 = Inr y" by (simp add: bind_def)
    with f[of x] fs show ?thesis unfolding never_returns_def by blast
  qed
qed

lemma never_returns_unchanged: "never_returns m \<Longrightarrow> returns_unchanged m"
  by (simp add: never_returns_def returns_unchanged_def)

lemma never_returns_rerun: "never_returns rerun"
  by (simp add: never_returns_def rerun_def raise_def)

lemma returns_unchanged_prims:
  "returns_unchanged (ret x)" "returns_unchanged (raise e)" "returns_unchanged rerun"
  "returns_unchanged (lift_result r)" "returns_unchanged (emit env ev)"
  "returns_unchanged (button env k)" "returns_unchanged (checkbox env k)"
  "returns_unchanged (fetch env n a)"
  "returns_unchanged (session_get k d)" "returns_unchanged (session_contains k)"
  "returns_unchanged (logger l g)"
  by (auto simp: returns_unchanged_def io_defs split: option.splits)


lemma never_sleeps_if:
  "never_sleeps a \<Longrightarrow> never_sleeps b \<Longrightarrow> never_sleeps (if c then a else b)"
  by simp

lemma returns_unchanged_if:
  "returns_unchanged a \<Longrightarrow> returns_unchanged b \<Longrightarrow> returns_unchanged (if c then a else b)"
  by simp

lemma no_progress_never_sleeps: "never_sleeps (display_no_progress env aid src)"
  unfolding display_no_progress_def Let_def py_eq_str_def
  by (simp add: never_sleeps_bind never_sleeps_prims)

lemma render_metrics_never_sleeps: "never_sleeps (render_metrics env pd)"
  unfolding render_metrics_def Let_def
  by (intro never_sleeps_bind never_sleeps_prims never_sleeps_if)

lemma render_metrics_unchanged: "returns_unchanged (render_metrics env pd)"
  unfolding render_metrics_def Let_def
  by (intro returns_unchanged_bind returns_unchanged_prims returns_unchanged_if)

lemma recover_results_never_sleeps: "never_sleeps (recover_results env aid)"
  unfolding recover_results_def
  by (auto intro!: never_sleeps_bind never_sleeps_try_except never_sleeps_prims
      split: option.splits)

lemma status_message_never_sleeps: "never_sleeps (status_message env aid svb pd)"
  unfolding status_message_def Let_def
  by (intro never_sleeps_bind never_sleeps_prims never_sleeps_if recover_results_never_sleeps)

lemma report_branch_never_returns:
  "never_returns
     (bind (recover_results env aid) (\<lambda>_.
      bind (session_set k1 v1) (\<lambda>_.
      bind (session_set k2 v2) (\<lambda>_.
      rerun))))"
  by (intro never_returns_bind never_returns_rerun)

lemma report_branch_unchanged:
  "returns_unchanged
     (if clicked then
        bind (recover_results env aid) (\<lambda>_.
        bind (session_set k1 v1) (\<lambda>_.
        bind (session_set k2 v2) (\<lambda>_.
        rerun)))
      else ret ())"
  by (rule returns_unchanged_if, rule never_returns_unchanged,
      rule report_branch_never_returns, rule returns_unchanged_prims)

lemma status_message_unchanged: "returns_unchanged (status_message env aid svb pd)"
  unfolding status_message_def Let_def
  by (intro report_branch_unchanged returns_unchanged_bind returns_unchanged_prims
      returns_unchanged_if)

section \<open>No progress record\<close>

lemma bind_emit_ok:
  "ui_raises env ev = None \<Longrightarrow>
   bind (emit env ev) f s = (case f () s of (r, s', t) \<Rightarrow> (r, s', ev # t))"
  by (simp add: bind_def emit_def split: prod.splits)

lemma bind_fetch:
  "bind (fetch env n a) f s =
     (case get_progress_by_id env n a of
        Inl e \<Rightarrow> (Inl e, s, [Fetch a])
      | Inr x \<Rightarrow> (case f x s of (r, s', t) \<Rightarrow> (r, s', Fetch a # t)))"
  by (simp add: bind_def fetch_def split: prod.splits sum.splits)

lemma no_progress_run:
  assumes ok: "\<forall>ev. ui_raises env ev = None"
  shows "\<exists>s' evs. display_no_progress env analysis_id show_refresh s =
           (if show_refresh \<and> button_clicked env (''refresh_unified_default_'' @ analysis_id)
            then Inl RerunException else Inr False, s', evs)
         \<and> hd evs = UI ''info'' ''current status: preparing to start the analysis'' []
         \<and> evs \<noteq> []
         \<and> (\<forall>t. Sleep t \<notin> set evs) \<and> (\<forall>a. Fetch a \<notin> set evs)
         \<and> s' (display_lock_key analysis_id) = s (display_lock_key analysis_id)"
  using ok
  by (simp add: display_no_progress_def io_defs key_defs py_eq_str_def Let_def)

text \<open>
  C6. When the tracker has no record of the analysis (it returns \<open>None\<close> or an empty
  payload) and no Streamlit call fails, \<open>display_static_progress_with_controls\<close> shows the
  "preparing to start the analysis" message and returns \<open>False\<close>; the local status is
  \<open>'initializing'\<close>, so the call never sleeps for an automatic refresh. It raises no error:
  the one other outcome is the rerun the user asks for by pressing the refresh button. The
  display lock is released at the end.
\<close>

theorem no_progress_shows_preparing_state:
  assumes free: "\<not> display_lock_held s analysis_id"
      and nf: "get_progress_by_id env 0 analysis_id = Inr None
               \<or> get_progress_by_id env 0 analysis_id = Inr (Some [])"
      and ok: "\<forall>ev. ui_raises env ev = None"
  shows "\<exists>s' evs.
           display_static_progress_with_controls env analysis_id show_refresh show_report s =
             (if show_refresh \<and> button_clicked env (''refresh_unified_default_'' @ analysis_id)
              then Inl RerunException else Inr False, s', evs)
         \<and> UI ''info'' ''current status: preparing to start the analysis'' [] \<in> set evs
         \<and> (\<forall>t. Sleep t \<notin> set evs)
         \<and> s' (display_lock_key analysis_id) = None"
proof -
  obtain s1 evs1 where run:
    "display_no_progress env analysis_id show_refresh (s(display_lock_key analysis_id \<mapsto> PBool True)) =
       (if show_refresh \<and> button_clicked env (''refresh_unified_default_'' @ analysis_id)
        then Inl RerunException else Inr False, s1, evs1)"
    and hd1: "hd evs1 = UI ''info'' ''current status: preparing to start the analysis'' []"
    and ne: "evs1 \<noteq> []"
    and ns: "\<forall>t. Sleep t \<notin> set evs1"
    and lk: "s1 (display_lock_key analysis_id) = Some (PBool True)"
    using no_progress_run[OF ok, of analysis_id show_refresh "s(display_lock_key analysis_id \<mapsto> PBool True)"]
    by auto
  have mem: "UI ''info'' ''current status: preparing to start the analysis'' [] \<in> set evs1"
    using hd1 ne by (metis list.set_sel(1))
  from free nf ok run mem ns lk show ?thesis
    by (auto simp: display_static_progress_with_controls_def display_lock_held_def
        release_display_lock_def try_finally_def bind_emit_ok bind_fetch session_del_def ret_def)
qed

theorem no_progress_shows_preparing_state_witness:
  "\<not> display_lock_held Map.empty ''job1''
   \<and> get_progress_by_id env_quiet 0 ''job1'' = Inr None
   \<and> (\<forall>ev. ui_raises env_quiet ev = None)
   \<and> (\<exists>s' evs.
         display_static_progress_with_controls env_quiet ''job1'' True True Map.empty =
           (Inr False, s', evs)
         \<and> UI ''info'' ''current status: preparing to start the analysis'' [] \<in> set evs
         \<and> (\<forall>t. Sleep t \<notin> set evs)
         \<and> s' (display_lock_key ''job1'') = None)"
proof -
  have free: "\<not> display_lock_held Map.empty ''job1''"
    by (simp add: display_lock_held_def)
  have nf: "get_progress_by_id env_quiet 0 ''job1'' = Inr None
            \<or> get_progress_by_id env_quiet 0 ''job1'' = Inr (Some [])"
    by (simp add: env_quiet_def)
  have ok: "\<forall>ev. ui_raises env_quiet ev = None"
    by (simp add: env_quiet_def)
  have nb: "\<not> button_clicked env_quiet (''refresh_unified_default_'' @ ''job1'')"
    by (simp add: env_quiet_def)
  from no_progress_shows_preparing_state[OF free nf ok, of True True] nb free ok
  show ?thesis by (simp add: env_quiet_def)
qed

section \<open>The refresh-rate limiter\<close>

lemma refresh_controls_sleep:
  assumes run: "refresh_controls env aid pd s = (r, s', evs)" and sl: "Sleep t \<in> set evs"
  shows "\<exists>depth t_last.
           research_depth_of pd = Inr depth
         \<and> py_num (last_refresh_time s aid) = Inr t_last
         \<and> protection_interval depth \<le> now_refresh env - t_last
         \<and> t = sleep_time depth
         \<and> s' (refresh_protection_key aid) = Some (PNum (now_refresh env))
         \<and> r = Inl RerunException"
  using run sl
  unfolding refresh_controls_def Let_def last_refresh_time_def refresh_allowed_def
  by (auto simp: io_defs key_defs split: sum.splits option.splits if_splits prod.splits)

lemma returns_unchangedD:
  "returns_unchanged m \<Longrightarrow> m s = (Inr x, s', evs) \<Longrightarrow> s' = s"
  unfolding returns_unchanged_def by blast

lemma display_progress_sleep:
  assumes run: "display_progress env aid src svb pd s = (r, s', evs)"
      and sl: "Sleep t \<in> set evs"
  shows "\<exists>depth t_last.
           research_depth_of pd = Inr depth
         \<and> py_num (last_refresh_time s aid) = Inr t_last
         \<and> protection_interval depth \<le> now_refresh env - t_last
         \<and> t = sleep_time depth
         \<and> s' (refresh_protection_key aid) = Some (PNum (now_refresh env))
         \<and> r = Inl RerunException"
proof -
  let ?status = "sf_status (static_progress_fields pd)"
  let ?third = "if src \<and> (py_eq_str ?status ''running'' \<or> py_eq_str ?status ''initializing'')
                then refresh_controls env aid pd else ret ()"
  obtain r1 s1 t1 where m1: "render_metrics env pd s = (r1, s1, t1)"
    by (cases "render_metrics env pd s") auto
  have n1: "Sleep t \<notin> set t1"
    using never_sleepsD[OF render_metrics_never_sleeps m1] .
  show ?thesis
  proof (cases r1)
    case (Inl e)
    with run m1 have "evs = t1" by (simp add: display_progress_def Let_def bind_def)
    with n1 sl show ?thesis by simp
  next
    case r1: (Inr u1)
    have s1: "s1 = s" using returns_unchangedD[OF render_metrics_unchanged] m1 r1 by blast
    obtain r2 s2 t2 where m2: "status_message env aid svb pd s = (r2, s2, t2)"
      by (cases "status_message env aid svb pd s") auto
    have n2: "Sleep t \<notin> set t2"
      using never_sleepsD[OF status_message_never_sleeps m2] .
    show ?thesis
    proof (cases r2)
      case (Inl e)
      with run m1 r1 s1 m2 have "evs = t1 @ t2"
        by (simp add: display_progress_def Let_def bind_def)
      with n1 n2 sl show ?thesis by simp
    next
      case r2: (Inr u2)
      have s2: "s2 = s" using returns_unchangedD[OF status_message_unchanged] m2 r2 by blast
      obtain r3 s3 t3 where m3: "?third s = (r3, s3, t3)"
        by (cases "?third s") auto
      from run m1 r1 s1 m2 r2 s2 m3
      have evs: "evs = t1 @ t2 @ t3" and s': "s' = s3"
        and r: "\<And>e. r3 = Inl e \<Longrightarrow> r = Inl e"
        by (auto simp: display_progress_def Let_def bind_def ret_def split: sum.splits)
      from evs n1 n2 sl have sl3: "Sleep t \<in> set t3" by simp
      then have cond: "src \<and> (py_eq_str ?status ''running'' \<or> py_eq_str ?status ''initializing'')"
        using m3 by (auto simp: ret_def split: if_splits)
      with m3 have rc: "refresh_controls env aid pd s = (r3, s3, t3)" by simp
      from refresh_controls_sleep[OF rc sl3] s' r show ?thesis by auto
    qed
  qed
qed

lemma release_lock_frame:
  assumes "release_display_lock aid sb = (rr, sr, tr)"
  shows "rr = Inr () \<and> sr (refresh_protection_key aid) = sb (refresh_protection_key aid)
         \<and> (\<forall>t. Sleep t \<notin> set tr)"
  using assms
  by (auto simp: release_display_lock_def session_del_def ret_def key_defs split: if_splits)

lemma auto_refresh_only_after_interval:
  assumes run: "display_static_progress_with_controls env analysis_id show_refresh show_report s =
               (r, s', evs)"
      and sl: "Sleep t \<in> set evs"
  shows "\<exists>pd research_depth t_last.
           get_progress_by_id env 0 analysis_id = Inr (Some pd)
         \<and> research_depth_of pd = Inr research_depth
         \<and> py_num (last_refresh_time s analysis_id) = Inr t_last
         \<and> protection_interval research_depth \<le> now_refresh env - t_last
         \<and> t = sleep_time research_depth
         \<and> s' (refresh_protection_key analysis_id) = Some (PNum (now_refresh env))
         \<and> r = Inl RerunException"
proof -
  let ?s0 = "s(display_lock_key analysis_id \<mapsto> PBool True)"
  let ?K = "\<lambda>progress_data. case progress_data of
          None \<Rightarrow> display_no_progress env analysis_id show_refresh
        | Some d \<Rightarrow>
            if d = [] then display_no_progress env analysis_id show_refresh
            else display_progress env analysis_id show_refresh show_report d"
  let ?body = "bind (emit env (UI ''markdown'' ''analysis progress'' [])) (\<lambda>_.
        bind (fetch env 0 analysis_id) ?K)"
  have free: "\<not> display_lock_held s analysis_id"
    using run sl
    by (auto simp: display_static_progress_with_controls_def display_lock_held_def ret_def)
  obtain rb sb tb where body: "?body ?s0 = (rb, sb, tb)"
    by (cases "?body ?s0") auto
  obtain rr sr tr where rel: "release_display_lock analysis_id sb = (rr, sr, tr)"
    by (cases "release_display_lock analysis_id sb") auto
  note fr = release_lock_frame[OF rel]
  from run free body rel fr
  have evs: "evs = SessionSet (display_lock_key analysis_id) (PBool True) # tb @ tr"
    and r: "r = rb" and s': "s' = sr"
    by (auto simp: display_static_progress_with_controls_def display_lock_held_def
        try_finally_def)
  from evs sl fr have slb: "Sleep t \<in> set tb" by auto
  from body slb obtain pdo where
    f: "get_progress_by_id env 0 analysis_id = Inr pdo"
    and "\<exists>tk. ?K pdo ?s0 = (rb, sb, tk) \<and> Sleep t \<in> set tk"
    by (auto simp: bind_def emit_def fetch_def split: option.splits sum.splits prod.splits)
  then obtain tk where k: "?K pdo ?s0 = (rb, sb, tk)" and slk: "Sleep t \<in> set tk"
    by blast
  have np: "display_no_progress env analysis_id show_refresh ?s0 \<noteq> (rb, sb, tk)"
    using never_sleepsD[OF no_progress_never_sleeps] slk by blast
  from k np obtain pd where pd: "pdo = Some pd"
    and dp: "display_progress env analysis_id show_refresh show_report pd ?s0 = (rb, sb, tk)"
    by (auto split: option.splits if_splits)
  have same: "last_refresh_time ?s0 analysis_id = last_refresh_time s analysis_id"
    by (simp add: last_refresh_time_def key_defs)
  from display_progress_sleep[OF dp slk] same f pd r s' fr
  show ?thesis by auto
qed

lemmas display_defs =
  display_static_progress_with_controls_def display_no_progress_def display_progress_def
  render_metrics_def status_message_def refresh_controls_def recover_results_def
  release_display_lock_def static_progress_fields_def elapsed_time_def remaining_time_def
  research_depth_of_def protection_interval_def sleep_time_def refresh_allowed_def
  py_eq_str_def py_eq_num_def dict_get_def Let_def

lemma research_depth_reading:
  "(map_of pd ''steps'' = None \<longrightarrow> research_depth_of pd = Inr (PNum 2))
   \<and> (map_of pd ''steps'' = Some (PList []) \<longrightarrow> research_depth_of pd = Inr (PNum 2))
   \<and> (map_of pd ''steps'' = Some (PList (PDict step # rest)) \<longrightarrow>
        research_depth_of pd =
          Inr (case map_of step ''research_depth'' of None \<Rightarrow> PNum 2 | Some v \<Rightarrow> v))"
  by (simp add: research_depth_of_def dict_get_def)

lemma refresh_triggered:
  assumes fetch: "get_progress_by_id env 0 analysis_id = Inr (Some pd)"
      and st: "map_of pd ''status'' = Some (PStr ''running'')"
      and t0: "map_of pd ''start_time'' = Some (PNum t0)" "0 < t0"
      and pp: "map_of pd ''progress_percentage'' = Some (PNum p)"
      and est: "map_of pd ''estimated_total_time'' = Some (PNum est)"
      and plan: "(map_of pd ''steps'' = Some (PList (PDict step # rest))
                   \<and> map_of step ''research_depth'' = Some (PNum d))
                 \<or> (map_of pd ''steps'' = None \<and> d = 2)"
      and ui: "\<forall>ev. ui_raises env ev = None"
      and ft: "\<forall>v. format_time env v = Inr (fmt v)"
      and nb: "\<not> button_clicked env (''refresh_unified_'' @ analysis_id)"
      and cb: "checkbox_value env (''auto_refresh_unified_'' @ analysis_id)"
      and free: "s (''progress_display_lock_'' @ analysis_id) = None"
      and lastr: "(case s (''refresh_protection_'' @ analysis_id) of
                     None \<Rightarrow> PNum 0 | Some v \<Rightarrow> v) = PNum t_last"
  shows "case display_static_progress_with_controls env analysis_id True show_report s of
           (r, s', evs) \<Rightarrow>
             ((if d = 1 then 5 else 2) \<le> now_refresh env - t_last \<longrightarrow>
                r = Inl RerunException
              \<and> Sleep (if d = 1 then 6 else 3) \<in> set evs
              \<and> s' (''refresh_protection_'' @ analysis_id) = Some (PNum (now_refresh env)))
           \<and> (\<not> (if d = 1 then 5 else 2) \<le> now_refresh env - t_last \<longrightarrow>
                r = Inr False
              \<and> (\<forall>t. Sleep t \<notin> set evs)
              \<and> s' (''refresh_protection_'' @ analysis_id) =
                  s (''refresh_protection_'' @ analysis_id))"
proof -
  have ne: "pd \<noteq> []" using st by auto
  from plan show ?thesis
  proof
    assume "map_of pd ''steps'' = Some (PList (PDict step # rest))
              \<and> map_of step ''research_depth'' = Some (PNum d)"
    with fetch st t0 pp est ui ft nb cb free lastr ne show ?thesis
      by (simp add: display_defs io_defs key_defs bind_emit_ok)
  next
    assume "map_of pd ''steps'' = None \<and> d = 2"
    with fetch st t0 pp est ui ft nb cb free lastr ne show ?thesis
      by (simp add: display_defs io_defs key_defs bind_emit_ok)
  qed
qed

text \<open>
  C4. The research depth of a payload is the \<open>research_depth\<close> of the first step of its
  step plan, and 2 when the payload has no plan or the step has none. The protection
  interval is 5 for depth 1 and 2 for every other depth (the pause before the rerun is 6 and
  3), so it is strictly larger for depth 1 than for any other depth. Whenever a call of
  \<open>display_static_progress_with_controls\<close> sleeps for an automatic refresh, a payload was
  found, the time since the last protected refresh (the session's \<open>refresh_protection\<close>
  entry, 0 when there is none) is at least the protection interval of the payload's depth,
  the pause is that depth's, the protected refresh time becomes the current time, and the
  call ends in the rerun. And for a running analysis shown with its refresh controls, the
  auto-refresh box ticked, the refresh button not pressed and no call failing, the call
  sleeps and reruns exactly when that time is at least the interval of the plan's depth;
  otherwise it returns \<open>False\<close> without sleeping and leaves the protected refresh time as
  it was.
\<close>

theorem refresh_rate_limited:
  "(protection_interval (PNum d) = (if d = 1 then 5 else 2)
    \<and> sleep_time (PNum d) = (if d = 1 then 6 else 3)
    \<and> (d \<noteq> 1 \<longrightarrow> protection_interval (PNum d) < protection_interval (PNum 1)))
   \<and> (py_eq_num depth 1 \<longrightarrow> protection_interval depth = 5 \<and> sleep_time depth = 6)
   \<and> (\<not> py_eq_num depth 1 \<longrightarrow> protection_interval depth = 2 \<and> sleep_time depth = 3)
   \<and> (map_of pd ''steps'' = None \<longrightarrow> research_depth_of pd = Inr (PNum 2))
   \<and> (map_of pd ''steps'' = Some (PList (PDict step # rest)) \<longrightarrow>
        research_depth_of pd =
          Inr (case map_of step ''research_depth'' of None \<Rightarrow> PNum 2 | Some v \<Rightarrow> v))
   \<and> (display_static_progress_with_controls env analysis_id show_refresh show_report s =
         (r, s', evs) \<and> Sleep t \<in> set evs \<longrightarrow>
       (\<exists>progress_data research_depth t_last.
           get_progress_by_id env 0 analysis_id = Inr (Some progress_data)
         \<and> research_depth_of progress_data = Inr research_depth
         \<and> py_num (case s (''refresh_protection_'' @ analysis_id) of
                     None \<Rightarrow> PNum 0 | Some v \<Rightarrow> v) = Inr t_last
         \<and> (if py_eq_num research_depth 1 then 5 else 2) \<le> now_refresh env - t_last
         \<and> t = (if py_eq_num research_depth 1 then 6 else 3)
         \<and> s' (''refresh_protection_'' @ analysis_id) = Some (PNum (now_refresh env))
         \<and> r = Inl RerunException))
   \<and> (get_progress_by_id env 0 analysis_id = Inr (Some pd)
       \<and> map_of pd ''status'' = Some (PStr ''running'')
       \<and> map_of pd ''start_time'' = Some (PNum t0) \<and> 0 < t0
       \<and> map_of pd ''progress_percentage'' = Some (PNum p)
       \<and> map_of pd ''estimated_total_time'' = Some (PNum est)
       \<and> ((map_of pd ''steps'' = Some (PList (PDict step # rest))
             \<and> map_of step ''research_depth'' = Some (PNum d))
            \<or> (map_of pd ''steps'' = None \<and> d = 2))
       \<and> (\<forall>ev. ui_raises env ev = None)
       \<and> (\<forall>v. format_time env v = Inr (fmt v))
       \<and> \<not> button_clicked env (''refresh_unified_'' @ analysis_id)
       \<and> checkbox_value env (''auto_refresh_unified_'' @ analysis_id)
       \<and> s (''progress_display_lock_'' @ analysis_id) = None
       \<and> (case s (''refresh_protection_'' @ analysis_id) of
             None \<Rightarrow> PNum 0 | Some v \<Rightarrow> v) = PNum last_refresh
       \<longrightarrow>
       (case display_static_progress_with_controls env analysis_id True show_report s of
          (r2, s2, evs2) \<Rightarrow>
            ((if d = 1 then 5 else 2) \<le> now_refresh env - last_refresh \<longrightarrow>
               r2 = Inl RerunException
             \<and> Sleep (if d = 1 then 6 else 3) \<in> set evs2
             \<and> s2 (''refresh_protection_'' @ analysis_id) = Some (PNum (now_refresh env)))
          \<and> (\<not> (if d = 1 then 5 else 2) \<le> now_refresh env - last_refresh \<longrightarrow>
               r2 = Inr False
             \<and> (\<forall>t. Sleep t \<notin> set evs2)
             \<and> s2 (''refresh_protection_'' @ analysis_id) =
                 s (''refresh_protection_'' @ analysis_id))))"
proof -
  have a: "protection_interval (PNum d) = (if d = 1 then 5 else 2)
    \<and> sleep_time (PNum d) = (if d = 1 then 6 else 3)
    \<and> (d \<noteq> 1 \<longrightarrow> protection_interval (PNum d) < protection_interval (PNum 1))"
    by (simp add: protection_interval_def sleep_time_def py_eq_num_def)
  have b: "(py_eq_num depth 1 \<longrightarrow> protection_interval depth = 5 \<and> sleep_time depth = 6)
   \<and> (\<not> py_eq_num depth 1 \<longrightarrow> protection_interval depth = 2 \<and> sleep_time depth = 3)"
    by (simp add: protection_interval_def sleep_time_def)
  note c = research_depth_reading[of pd step rest]
  have safe: "\<exists>progress_data research_depth t_last.
           get_progress_by_id env 0 analysis_id = Inr (Some progress_data)
         \<and> research_depth_of progress_data = Inr research_depth
         \<and> py_num (case s (''refresh_protection_'' @ analysis_id) of
                     None \<Rightarrow> PNum 0 | Some v \<Rightarrow> v) = Inr t_last
         \<and> (if py_eq_num research_depth 1 then 5 else 2) \<le> now_refresh env - t_last
         \<and> t = (if py_eq_num research_depth 1 then 6 else 3)
         \<and> s' (''refresh_protection_'' @ analysis_id) = Some (PNum (now_refresh env))
         \<and> r = Inl RerunException"
    if "display_static_progress_with_controls env analysis_id show_refresh show_report s =
         (r, s', evs)" "Sleep t \<in> set evs"
    using auto_refresh_only_after_interval[OF that]
    by (simp add: last_refresh_time_def refresh_protection_key_def protection_interval_def
        sleep_time_def)
  have live: "case display_static_progress_with_controls env analysis_id True show_report s of
          (r2, s2, evs2) \<Rightarrow>
            ((if d = 1 then 5 else 2) \<le> now_refresh env - last_refresh \<longrightarrow>
               r2 = Inl RerunException
             \<and> Sleep (if d = 1 then 6 else 3) \<in> set evs2
             \<and> s2 (''refresh_protection_'' @ analysis_id) = Some (PNum (now_refresh env)))
          \<and> (\<not> (if d = 1 then 5 else 2) \<le> now_refresh env - last_refresh \<longrightarrow>
               r2 = Inr False
             \<and> (\<forall>t. Sleep t \<notin> set evs2)
             \<and> s2 (''refresh_protection_'' @ analysis_id) =
                 s (''refresh_protection_'' @ analysis_id))"
    if "get_progress_by_id env 0 analysis_id = Inr (Some pd)
       \<and> map_of pd ''status'' = Some (PStr ''running'')
       \<and> map_of pd ''start_time'' = Some (PNum t0) \<and> 0 < t0
       \<and> map_of pd ''progress_percentage'' = Some (PNum p)
       \<and> map_of pd ''estimated_total_time'' = Some (PNum est)
       \<and> ((map_of pd ''steps'' = Some (PList (PDict step # rest))
             \<and> map_of step ''research_depth'' = Some (PNum d))
            \<or> (map_of pd ''steps'' = None \<and> d = 2))
       \<and> (\<forall>ev. ui_raises env ev = None)
       \<and> (\<forall>v. format_time env v = Inr (fmt v))
       \<and> \<not> button_clicked env (''refresh_unified_'' @ analysis_id)
       \<and> checkbox_value env (''auto_refresh_unified_'' @ analysis_id)
       \<and> s (''progress_display_lock_'' @ analysis_id) = None
       \<and> (case s (''refresh_protection_'' @ analysis_id) of
             None \<Rightarrow> PNum 0 | Some v \<Rightarrow> v) = PNum last_refresh"
    by (rule refresh_triggered[of env analysis_id pd t0 p est step rest d fmt s last_refresh
          show_report])
       (use that in simp_all)
  from a b c safe live show ?thesis by blast
qed

theorem refresh_rate_limited_witness:
  "display_static_progress_with_controls (env_with_depth 1) ''job1'' True True
       session_refreshed_recently
     = (Inr False, session_refreshed_recently(''auto_refresh_unified_job1'' \<mapsto> PBool True),
        snd (snd (display_static_progress_with_controls (env_with_depth 1) ''job1'' True True
                    session_refreshed_recently)))
   \<and> (\<forall>t. Sleep t \<notin> set (snd (snd (display_static_progress_with_controls (env_with_depth 1)
                ''job1'' True True session_refreshed_recently))))
   \<and> fst (display_static_progress_with_controls (env_with_depth 2) ''job1'' True True
            session_refreshed_recently) = Inl RerunException
   \<and> Sleep 3 \<in> set (snd (snd (display_static_progress_with_controls (env_with_depth 2)
                ''job1'' True True session_refreshed_recently)))
   \<and> Sleep 6 \<notin> set (snd (snd (display_static_progress_with_controls (env_with_depth 2)
                ''job1'' True True session_refreshed_recently)))
   \<and> Sleep 3 \<in> set (snd (snd (display_static_progress_with_controls (env_with_depth 3)
                ''job1'' True True session_refreshed_recently)))
   \<and> (\<forall>t. Sleep t \<notin> set (snd (snd (display_static_progress_with_controls (env_with_depth 2)
                ''job1'' True True session_refreshed_just_now))))
   \<and> Sleep 6 \<in> set (snd (snd (display_static_progress_with_controls (env_with_depth 1)
                ''job1'' True True Map.empty)))
   \<and> fst (snd (display_static_progress_with_controls (env_with_depth 1) ''job1'' True True
                  Map.empty)) ''refresh_protection_job1'' = Some (PNum 1000)
   \<and> Sleep 3 \<in> set (snd (snd (display_static_progress_with_controls env_running_plain
                ''job1'' True True session_refreshed_recently)))
   \<and> research_depth_of (payload_with_depth 2) = Inr (PNum 2)
   \<and> protection_interval (PNum 1) = 5 \<and> protection_interval (PNum 2) = 2
   \<and> protection_interval (PNum 3) = 2"
proof -
  have runs:
    "display_static_progress_with_controls (env_with_depth 1) ''job1'' True True
         session_refreshed_recently
       = (Inr False, session_refreshed_recently(''auto_refresh_unified_job1'' \<mapsto> PBool True),
          snd (snd (display_static_progress_with_controls (env_with_depth 1) ''job1'' True True
                      session_refreshed_recently)))"
    "\<forall>t. Sleep t \<notin> set (snd (snd (display_static_progress_with_controls (env_with_depth 1)
                ''job1'' True True session_refreshed_recently)))"
    "fst (display_static_progress_with_controls (env_with_depth 2) ''job1'' True True
            session_refreshed_recently) = Inl RerunException"
    "Sleep 3 \<in> set (snd (snd (display_static_progress_with_controls (env_with_depth 2)
                ''job1'' True True session_refreshed_recently)))"
    "Sleep 6 \<notin> set (snd (snd (display_static_progress_with_controls (env_with_depth 2)
                ''job1'' True True session_refreshed_recently)))"
    "Sleep 3 \<in> set (snd (snd (display_static_progress_with_controls (env_with_depth 3)
                ''job1'' True True session_refreshed_recently)))"
    "\<forall>t. Sleep t \<notin> set (snd (snd (display_static_progress_with_controls (env_with_depth 2)
                ''job1'' True True session_refreshed_just_now)))"
    "Sleep 6 \<in> set (snd (snd (display_static_progress_with_controls (env_with_depth 1)
                ''job1'' True True Map.empty)))"
    "fst (snd (display_static_progress_with_controls (env_with_depth 1) ''job1'' True True
                  Map.empty)) ''refresh_protection_job1'' = Some (PNum 1000)"
    by (simp_all add: display_defs env_with_depth_def env_quiet_def payload_with_depth_def
        io_defs key_defs session_refreshed_recently_def session_refreshed_just_now_def
        fun_eq_iff)
  have plain_recent:
    "Sleep 3 \<in> set (snd (snd (display_static_progress_with_controls env_running_plain
                  ''job1'' True True session_refreshed_recently)))"
    by (simp add: display_defs env_running_plain_def env_quiet_def payload_running_plain_def
        io_defs key_defs session_refreshed_recently_def)
  from refresh_rate_limited[where d = 2 and depth = "PNum 1" and pd = "payload_with_depth 2"
         and step = "[(''name'', PStr ''plan''), (''research_depth'', PNum 2)]"
         and rest = "[PDict [(''name'', PStr ''report''), (''research_depth'', PNum 2)]]"
         and env = "env_with_depth 2" and analysis_id = "''job1''" and show_refresh = True
         and show_report = True and s = session_refreshed_recently
         and t0 = 900 and p = 40 and est = 300 and fmt = "\<lambda>v. ''0s''" and last_refresh = 997
         and r = "Inl RerunException"
         and s' = "fst (snd (display_static_progress_with_controls (env_with_depth 2) ''job1''
                               True True session_refreshed_recently))"
         and evs = "snd (snd (display_static_progress_with_controls (env_with_depth 2) ''job1''
                               True True session_refreshed_recently))"
         and t = 3]
       runs plain_recent
  show ?thesis
    by (simp add: protection_interval_def py_eq_num_def research_depth_of_def
        payload_with_depth_def dict_get_def)
qed

section \<open>Deleting a record\<close>

lemma emit_all_ok:
  "\<forall>ev. ui_raises env ev = None \<Longrightarrow> emit_all env evs s = (Inr (), s, evs)"
  by (induction evs arbitrary: s) (simp_all add: ret_def bind_emit_ok)

lemmas delete_defs =
  delete_analysis_record_def delete_file_record_def delete_redis_record_def
  fs_exists_def fs_remove_def redis_client_def redis_client_delete_def
  file_backend_outcome_def redis_backend_outcome_def removed_count_def backend_failures_def

text \<open>
  C3, as stated, fails twice. What the call reports does not tell the backends apart: when
  the file is removed and Redis has no key, and when the file is not there and Redis
  deletes the key, the page shows the same single line (one record deleted) and the call
  ends the same way; only a line of the log names the backend. And with the Redis package not installed (and Redis switched off), the
  call tries neither backend, although the file is there: \<open>import redis\<close> comes before
  the file is looked for, and the outer handler shows that the delete operation failed.
\<close>

theorem delete_report_counterexample:
  "file_backend_outcome env_expired_in_redis ''job1'' = Removed
   \<and> redis_backend_outcome env_expired_in_redis ''job1'' = NotFound
   \<and> file_backend_outcome env_file_missing ''job1'' = NotFound
   \<and> redis_backend_outcome env_file_missing ''job1'' = Removed
   \<and> shown_on_page (snd (snd (delete_analysis_record env_expired_in_redis ''job1'' Map.empty))) =
       [UI ''success'' ''records deleted'' [CNum 1]]
   \<and> shown_on_page (snd (snd (delete_analysis_record env_file_missing ''job1'' Map.empty))) =
       [UI ''success'' ''records deleted'' [CNum 1]]
   \<and> fst (delete_analysis_record env_expired_in_redis ''job1'' Map.empty) = Inl RerunException
   \<and> fst (delete_analysis_record env_file_missing ''job1'' Map.empty) = Inl RerunException
   \<and> path_exists env_no_redis_package ''./data/progress_job1.json''
   \<and> delete_analysis_record env_no_redis_package ''job1'' Map.empty =
       (Inr (), Map.empty,
        [UI ''error'' ''delete operation failed'' [CExn ImportError],
         Log ''error'' ''deleting the analysis record failed''])"
  by (simp add: delete_defs io_defs env_expired_in_redis_def env_file_missing_def
      env_no_redis_package_def env_quiet_def progress_file_def redis_key_def)

text \<open>
  C3, amended. With the Redis client importable and no Streamlit call failing,
  \<open>delete_analysis_record\<close> tries each backend whatever the other one does: it always
  looks for the file \<open>./data/progress_{id}.json\<close> and removes it when it is there, and,
  with Redis enabled and its configuration readable, it always deletes the key
  \<open>progress:{id}\<close>. An exception or an absence in one backend does not fail the call and
  the session is left unchanged. The call reports the number of backends that removed the
  record and, for each backend that raised, a message naming the backend with its
  exception: as warnings after the count, followed by a rerun of the page, when at least
  one backend removed the record, and as errors after "no record found" otherwise. Which
  backend had no record is not reported.
\<close>

theorem delete_tries_each_backend:
  assumes imp: "redis_importable env"
      and ok: "\<forall>ev. ui_raises env ev = None"
  shows "delete_analysis_record env analysis_id s =
           (if 0 < removed_count env analysis_id then Inl RerunException else Inr (),
            s,
            Storage ''os.path.exists'' (''./data/progress_'' @ analysis_id @ ''.json'')
            # (if path_exists env (''./data/progress_'' @ analysis_id @ ''.json'') then
                 Storage ''os.remove'' (''./data/progress_'' @ analysis_id @ ''.json'')
                 # (if os_remove env (''./data/progress_'' @ analysis_id @ ''.json'') = None
                    then [Log ''info'' ''file record deleted''] else [])
               else [])
            @ (if redis_enabled env \<and> redis_config_ok env then
                 Storage ''redis.delete'' (''progress:'' @ analysis_id)
                 # (if redis_backend_outcome env analysis_id = Removed
                    then [Log ''info'' ''redis record deleted''] else [])
               else [])
            @ (if 0 < removed_count env analysis_id then
                 UI ''success'' ''records deleted'' [CNum (real (removed_count env analysis_id))]
                 # map (\<lambda>(msg, e). UI ''warning'' msg [CExn e])
                     (backend_failures env analysis_id)
               else
                 UI ''error'' ''delete failed: no record to delete was found'' []
                 # map (\<lambda>(msg, e). UI ''error'' msg [CExn e])
                     (backend_failures env analysis_id)))"
proof -
  consider (a) "file_backend_outcome env analysis_id = Removed"
    | (b) "file_backend_outcome env analysis_id = NotFound"
    | (c) e where "file_backend_outcome env analysis_id = Failed e"
    by (cases "file_backend_outcome env analysis_id") auto
  then show ?thesis
  proof cases
    case a
    then show ?thesis
      using imp ok
      by (cases "redis_delete env (''progress:'' @ analysis_id)")
         (simp_all add: delete_defs io_defs emit_all_ok bind_emit_ok progress_file_def
          redis_key_def split: option.splits if_splits)
  next
    case b
    then show ?thesis
      using imp ok
      by (cases "redis_delete env (''progress:'' @ analysis_id)")
         (simp_all add: delete_defs io_defs emit_all_ok bind_emit_ok progress_file_def
          redis_key_def split: option.splits if_splits)
  next
    case c
    then show ?thesis
      using imp ok
      by (cases "redis_delete env (''progress:'' @ analysis_id)")
         (simp_all add: delete_defs io_defs emit_all_ok bind_emit_ok progress_file_def
          redis_key_def split: option.splits if_splits)
  qed
qed

theorem delete_tries_each_backend_witness:
  "redis_importable env_expired_in_redis
   \<and> (\<forall>ev. ui_raises env_expired_in_redis ev = None)
   \<and> delete_analysis_record env_expired_in_redis ''job1'' Map.empty =
       (Inl RerunException, Map.empty,
        [Storage ''os.path.exists'' ''./data/progress_job1.json'',
         Storage ''os.remove'' ''./data/progress_job1.json'',
         Log ''info'' ''file record deleted'',
         Storage ''redis.delete'' ''progress:job1'',
         UI ''success'' ''records deleted'' [CNum 1]])
   \<and> delete_analysis_record env_file_denied ''job1'' Map.empty =
       (Inl RerunException, Map.empty,
        [Storage ''os.path.exists'' ''./data/progress_job1.json'',
         Storage ''os.remove'' ''./data/progress_job1.json'',
         Storage ''redis.delete'' ''progress:job1'',
         Log ''info'' ''redis record deleted'',
         UI ''success'' ''records deleted'' [CNum 1],
         UI ''warning'' ''file delete failed'' [CExn (OSError ''permission denied'')]])
   \<and> delete_analysis_record (env_file_denied \<lparr> redis_delete := (\<lambda>k. Inl ''connection refused'') \<rparr>)
         ''job1'' Map.empty =
       (Inr (), Map.empty,
        [Storage ''os.path.exists'' ''./data/progress_job1.json'',
         Storage ''os.remove'' ''./data/progress_job1.json'',
         Storage ''redis.delete'' ''progress:job1'',
         UI ''error'' ''delete failed: no record to delete was found'' [],
         UI ''error'' ''file delete failed'' [CExn (OSError ''permission denied'')],
         UI ''error'' ''redis delete failed'' [CExn (RedisError ''connection refused'')]])"
proof -
  have pre1: "redis_importable env_expired_in_redis"
    "\<forall>ev. ui_raises env_expired_in_redis ev = None"
    by (simp_all add: env_expired_in_redis_def env_quiet_def)
  have pre2: "redis_importable env_file_denied"
    "\<forall>ev. ui_raises env_file_denied ev = None"
    by (simp_all add: env_file_denied_def env_quiet_def)
  have pre3:
    "redis_importable (env_file_denied \<lparr> redis_delete := (\<lambda>k. Inl ''connection refused'') \<rparr>)"
    "\<forall>ev. ui_raises (env_file_denied \<lparr> redis_delete := (\<lambda>k. Inl ''connection refused'') \<rparr>) ev
          = None"
    by (simp_all add: env_file_denied_def env_quiet_def)
  from delete_tries_each_backend[OF pre1, of "''job1''" Map.empty]
       delete_tries_each_backend[OF pre2, of "''job1''" Map.empty]
       delete_tries_each_backend[OF pre3, of "''job1''" Map.empty]
       pre1
  show ?thesis
    by (simp add: file_backend_outcome_def redis_backend_outcome_def removed_count_def
        backend_failures_def env_expired_in_redis_def env_file_denied_def env_quiet_def)
qed

section \<open>Addresses of a record\<close>

lemma emits_onlyD: "emits_only P m \<Longrightarrow> m s = (r, s', evs) \<Longrightarrow> ev \<in> set evs \<Longrightarrow> P ev"
  unfolding emits_only_def
proof -
  assume a: "\<forall>s ev. ev \<in> set (snd (snd (m s))) \<longrightarrow> P ev"
    and b: "m s = (r, s', evs)" and c: "ev \<in> set evs"
  from b c have "ev \<in> set (snd (snd (m s)))" by simp
  with a show "P ev" by blast
qed

lemma emits_onlyI:
  "(\<And>s r s' evs ev. m s = (r, s', evs) \<Longrightarrow> ev \<in> set evs \<Longrightarrow> P ev) \<Longrightarrow> emits_only P m"
  unfolding emits_only_def
proof (intro allI impI)
  fix s ev
  assume a: "\<And>s r s' evs ev. m s = (r, s', evs) \<Longrightarrow> ev \<in> set evs \<Longrightarrow> P ev"
    and b: "ev \<in> set (snd (snd (m s)))"
  obtain r s' evs where e: "m s = (r, s', evs)" by (cases "m s") auto
  with b have "ev \<in> set evs" by simp
  from a[OF e this] show "P ev" .
qed

lemma emits_only_bind:
  assumes m: "emits_only P m" and f: "\<And>x. emits_only P (f x)"
  shows "emits_only P (bind m f)"
proof (rule emits_onlyI)
  fix s r s' evs ev
  assume run: "bind m f s = (r, s', evs)" and mem: "ev \<in> set evs"
  obtain r1 s1 t1 where ms: "m s = (r1, s1, t1)" by (cases "m s") auto
  show "P ev"
  proof (cases r1)
    case (Inl e)
    with run ms have "evs = t1" by (simp add: bind_def)
    with mem emits_onlyD[OF m ms] show ?thesis by simp
  next
    case (Inr x)
    obtain r2 s2 t2 where fs: "f x s1 = (r2, s2, t2)" by (cases "f x s1") auto
    from run ms Inr fs have "evs = t1 @ t2" by (simp add: bind_def)
    with mem have "ev \<in> set t1 \<or> ev \<in> set t2" by simp
    with emits_onlyD[OF m ms] emits_onlyD[OF f fs] show ?thesis by blast
  qed
qed

lemma emits_only_try_except:
  assumes m: "emits_only P m" and h: "\<And>e. emits_only P (h e)"
  shows "emits_only P (try_except m h)"
proof (rule emits_onlyI)
  fix s r s' evs ev
  assume run: "try_except m h s = (r, s', evs)" and mem: "ev \<in> set evs"
  obtain r1 s1 t1 where ms: "m s = (r1, s1, t1)" by (cases "m s") auto
  show "P ev"
  proof (cases r1)
    case (Inr x)
    with run ms have "evs = t1" by (simp add: try_except_def)
    with mem emits_onlyD[OF m ms] show ?thesis by simp
  next
    case (Inl e)
    obtain r2 s2 t2 where hs: "h e s1 = (r2, s2, t2)" by (cases "h e s1") auto
    from run ms Inl hs have "evs = t1 \<or> evs = t1 @ t2"
      by (simp add: try_except_def split: if_splits)
    with mem have "ev \<in> set t1 \<or> ev \<in> set t2" by auto
    with emits_onlyD[OF m ms] emits_onlyD[OF h hs] show ?thesis by blast
  qed
qed

lemma emits_only_if:
  "emits_only P a \<Longrightarrow> emits_only P b \<Longrightarrow> emits_only P (if c then a else b)"
  by simp

lemma emits_only_silent:
  "emits_only P (ret x)" "emits_only P (raise e)" "emits_only P rerun"
  "emits_only P (lift_result r)" "emits_only P (session_get k d)"
  "emits_only P (session_contains k)" "emits_only P (redis_client env)"
  by (simp_all add: emits_only_def io_defs redis_client_def)

lemma emits_only_one:
  "P ev \<Longrightarrow> emits_only P (emit env ev)"
  "P (Log l g) \<Longrightarrow> emits_only P (logger l g)"
  "P (Storage ''os.path.exists'' p) \<Longrightarrow> emits_only P (fs_exists env p)"
  "P (Storage ''os.remove'' p) \<Longrightarrow> emits_only P (fs_remove env p)"
  "P (Storage ''redis.delete'' k) \<Longrightarrow> emits_only P (redis_client_delete env k)"
  by (simp_all add: emits_only_def io_defs fs_exists_def fs_remove_def redis_client_delete_def
      split: option.splits)

lemma emits_only_emit_all:
  "(\<And>ev. ev \<in> set evs \<Longrightarrow> P ev) \<Longrightarrow> emits_only P (emit_all env evs)"
proof (induction evs)
  case Nil
  then show ?case by (simp add: emits_only_silent)
next
  case (Cons a evs)
  then show ?case by (auto intro!: emits_only_bind emits_only_one)
qed

lemma delete_file_record_addresses:
  "emits_only (addresses_record aid) (delete_file_record env aid)"
  unfolding delete_file_record_def
  by (intro emits_only_try_except emits_only_bind emits_only_if emits_only_silent emits_only_one)
     simp_all

lemma delete_redis_record_addresses:
  "emits_only (addresses_record aid) (delete_redis_record env aid)"
  unfolding delete_redis_record_def
  by (intro emits_only_try_except emits_only_bind emits_only_if emits_only_silent emits_only_one)
     simp_all

lemma report_events_address:
  "\<And>ev. ev \<in> set (map (\<lambda>(msg, e). UI kind msg [CExn e]) errs) \<Longrightarrow> addresses_record aid ev"
  by auto

lemma delete_analysis_record_addresses:
  "emits_only (addresses_record aid) (delete_analysis_record env aid)"
  unfolding delete_analysis_record_def Let_def
  apply (rule emits_only_try_except)
   apply (rule emits_only_bind)
    apply (rule emits_only_if; rule emits_only_silent)
   apply (rule emits_only_bind)
    apply (rule delete_file_record_addresses)
   apply (simp only: split_paired_all prod.case)
   apply (rule emits_only_bind)
    apply (rule delete_redis_record_addresses)
   apply (simp only: split_paired_all prod.case)
   apply (rule emits_only_if)
    apply (intro emits_only_bind emits_only_one emits_only_emit_all emits_only_silent;
      (simp; fail | rule report_events_address, assumption))
   apply (intro emits_only_bind emits_only_one emits_only_emit_all emits_only_silent;
      (simp; fail | rule report_events_address, assumption))
  apply (intro emits_only_bind emits_only_one; simp)
  done

lemma fnmatch_literal: "literal p \<Longrightarrow> fnmatch s p \<longleftrightarrow> s = p"
proof (induction s p rule: fnmatch.induct)
  case 1
  then show ?case by simp
next
  case (2 c cs)
  then show ?case by simp
next
  case (3 p ps)
  then show ?case by (auto simp: literal_def)
next
  case (4 c cs p ps)
  then show ?case by (auto simp: literal_def)
qed

lemma fnmatch_star_suffix:
  "literal suf \<Longrightarrow> fnmatch s (CHR ''*'' # suf) \<longleftrightarrow> (\<exists>mid. s = mid @ suf)"
proof (induction s)
  case Nil
  then show ?case by (auto simp: fnmatch_literal)
next
  case (Cons c cs)
  have "fnmatch (c # cs) (CHR ''*'' # suf) \<longleftrightarrow>
          fnmatch (c # cs) suf \<or> fnmatch cs (CHR ''*'' # suf)"
    by simp
  also have "\<dots> \<longleftrightarrow> c # cs = suf \<or> (\<exists>mid. cs = mid @ suf)"
    using Cons by (simp add: fnmatch_literal)
  also have "\<dots> \<longleftrightarrow> (\<exists>mid. c # cs = mid @ suf)"
  proof
    assume "c # cs = suf \<or> (\<exists>mid. cs = mid @ suf)"
    then show "\<exists>mid. c # cs = mid @ suf"
    proof
      assume "c # cs = suf"
      then have "c # cs = [] @ suf" by simp
      then show ?thesis by blast
    next
      assume "\<exists>mid. cs = mid @ suf"
      then obtain mid where "cs = mid @ suf" by blast
      then have "c # cs = (c # mid) @ suf" by simp
      then show ?thesis by blast
    qed
  next
    assume "\<exists>mid. c # cs = mid @ suf"
    then obtain mid where m: "c # cs = mid @ suf" by blast
    show "c # cs = suf \<or> (\<exists>mid. cs = mid @ suf)"
    proof (cases mid)
      case Nil
      with m show ?thesis by simp
    next
      case (Cons a mid')
      with m have "cs = mid' @ suf" by simp
      then show ?thesis by blast
    qed
  qed
  finally show ?case .
qed

lemma fnmatch_literal_prefix:
  "literal pre \<Longrightarrow> fnmatch s (pre @ rest) \<longleftrightarrow> (\<exists>s2. s = pre @ s2 \<and> fnmatch s2 rest)"
proof (induction pre arbitrary: s)
  case Nil
  then show ?case by simp
next
  case (Cons p ps)
  then have lit: "literal ps" and p: "p \<noteq> CHR ''*''" "p \<noteq> CHR ''?''"
    by (auto simp: literal_def)
  show ?case
  proof (cases s)
    case Nil
    with p show ?thesis by simp
  next
    case (Cons c cs)
    with p Cons.IH[OF lit, of cs] show ?thesis by auto
  qed
qed

lemma fnmatch_prefix_star_suffix:
  assumes "literal pre" "literal suf"
  shows "fnmatch s (pre @ CHR ''*'' # suf) \<longleftrightarrow> (\<exists>mid. s = pre @ mid @ suf)"
  using assms by (auto simp: fnmatch_literal_prefix fnmatch_star_suffix)

lemma progress_pattern:
  "fnmatch name ''progress_*.json'' \<longleftrightarrow> (\<exists>aid. name = ''progress_'' @ aid @ ''.json'')"
  using fnmatch_prefix_star_suffix[of "''progress_''" "''.json''" name]
  by (simp add: literal_def)

lemma redis_pattern:
  "fnmatch key ''progress:*'' \<longleftrightarrow> (\<exists>aid. key = redis_key aid)"
  using fnmatch_prefix_star_suffix[of "''progress:''" "[]" key]
  by (simp add: literal_def redis_key_def)

text \<open>
  C8. The Redis key of an analysis is \<open>progress:\<close> followed by its id, and its file is
  \<open>./data/progress_\<close>, the id and \<open>.json\<close>; different ids have different keys and
  different files. Every storage operation of \<open>delete_analysis_record\<close> is on that file or
  that key. The file scan of the storage listing returns exactly the entries of the data
  directory that are such a file for some id, and its Redis scan exactly the keys that are
  such a key for some id.
\<close>

theorem record_keying_schemes:
  "redis_key analysis_id = ''progress:'' @ analysis_id
   \<and> progress_file analysis_id = ''./data/progress_'' @ analysis_id @ ''.json''
   \<and> (redis_key a = redis_key b \<longleftrightarrow> a = b)
   \<and> (progress_file a = progress_file b \<longleftrightarrow> a = b)
   \<and> (\<forall>op k. Storage op k \<in> set (snd (snd (delete_analysis_record env analysis_id s))) \<longrightarrow>
         k = progress_file analysis_id \<or> k = redis_key analysis_id)
   \<and> set (glob_progress_files env) =
       {p. \<exists>aid. p = progress_file aid
              \<and> ''progress_'' @ aid @ ''.json'' \<in> set (listdir env ''./data'')}
   \<and> set (redis_progress_keys env) =
       {k. k \<in> set (redis_all_keys env) \<and> (\<exists>aid. k = redis_key aid)}"
proof -
  have del: "\<forall>op k. Storage op k \<in> set (snd (snd (delete_analysis_record env analysis_id s))) \<longrightarrow>
         k = progress_file analysis_id \<or> k = redis_key analysis_id"
  proof (intro allI impI)
    fix op k
    assume mem: "Storage op k \<in> set (snd (snd (delete_analysis_record env analysis_id s)))"
    obtain r s' evs where run: "delete_analysis_record env analysis_id s = (r, s', evs)"
      by (cases "delete_analysis_record env analysis_id s") auto
    with mem have "Storage op k \<in> set evs" by simp
    from emits_onlyD[OF delete_analysis_record_addresses run this]
    show "k = progress_file analysis_id \<or> k = redis_key analysis_id" by simp
  qed
  have glob: "set (glob_progress_files env) =
       {p. \<exists>aid. p = progress_file aid
              \<and> ''progress_'' @ aid @ ''.json'' \<in> set (listdir env ''./data'')}"
    by (auto simp: glob_progress_files_def progress_pattern progress_file_def)
  have keys: "set (redis_progress_keys env) =
       {k. k \<in> set (redis_all_keys env) \<and> (\<exists>aid. k = redis_key aid)}"
    by (auto simp: redis_progress_keys_def redis_pattern)
  from del glob keys show ?thesis
    by (simp add: redis_key_def progress_file_def)
qed

theorem record_keying_schemes_witness:
  "redis_key ''job1'' = ''progress:job1''
   \<and> progress_file ''job1'' = ''./data/progress_job1.json''
   \<and> Storage ''os.remove'' ''./data/progress_job1.json''
       \<in> set (snd (snd (delete_analysis_record env_quiet ''job1'' Map.empty)))
   \<and> Storage ''redis.delete'' ''progress:job1''
       \<in> set (snd (snd (delete_analysis_record env_quiet ''job1'' Map.empty)))
   \<and> glob_progress_files env_quiet = [''./data/progress_job1.json'']
   \<and> redis_progress_keys env_quiet = [''progress:job1'']"
proof -
  have run:
    "snd (snd (delete_analysis_record env_quiet ''job1'' Map.empty)) =
       [Storage ''os.path.exists'' ''./data/progress_job1.json'',
        Storage ''os.remove'' ''./data/progress_job1.json'',
        Log ''info'' ''file record deleted'',
        Storage ''redis.delete'' ''progress:job1'',
        Log ''info'' ''redis record deleted'',
        UI ''success'' ''records deleted'' [CNum 2]]"
    by (simp add: delete_defs io_defs env_quiet_def progress_file_def redis_key_def)
  have scans:
    "glob_progress_files env_quiet = [''./data/progress_job1.json'']
     \<and> redis_progress_keys env_quiet = [''progress:job1'']"
    by (simp add: glob_progress_files_def redis_progress_keys_def env_quiet_def)
  from record_keying_schemes[of "''job1''" "''job1''" "''job2''" env_quiet Map.empty] run scans
  show ?thesis by (simp add: redis_key_def progress_file_def)
qed

section \<open>Reading the payload: defaults and elapsed time\<close>

text \<open>
  C7, as stated, fails: read from a payload that has the identity fields only, the missing
  number \<open>total_steps\<close> is 8, not 0, and the missing strings \<open>last_message\<close> and
  \<open>current_step_description\<close> of \<open>_render_progress\<close> are the empty string, not the
  "unknown" text.
\<close>

theorem payload_defaults_counterexample:
  "map_of payload_identity_only ''total_steps'' = None
   \<and> rf_total_steps (render_progress_fields payload_identity_only) \<noteq> PNum 0
   \<and> map_of payload_identity_only ''last_message'' = None
   \<and> rf_last_message (render_progress_fields payload_identity_only) = PStr []
   \<and> rf_last_message (render_progress_fields payload_identity_only) \<noteq> PStr TEXT_UNKNOWN
   \<and> map_of payload_identity_only ''current_step_description'' = None
   \<and> rf_step_description (render_progress_fields payload_identity_only) = PStr []"
  by (simp add: payload_identity_only_def render_progress_fields_def dict_get_def TEXT_UNKNOWN_def)

text \<open>
  C7, amended. Read by the display, a missing \<open>current_step\<close>, \<open>progress_percentage\<close>,
  \<open>start_time\<close>, \<open>estimated_total_time\<close> or \<open>elapsed_time\<close> is 0 and a missing
  \<open>total_steps\<close> is 8; a missing \<open>status\<close> is \<open>running\<close>; a missing string is the
  placeholder of the place that reads it: in \<open>_render_progress\<close> the "unknown" text for the
  step name and the empty string for the step description and the last message, in
  \<open>display_static_progress_with_controls\<close> the three "preparing" texts. A field that is
  present is used as stored.
\<close>

theorem payload_defaults:
  "(map_of d ''current_step'' = None \<longrightarrow>
      rf_current_step (render_progress_fields d) = PNum 0
    \<and> sf_current_step (static_progress_fields d) = PNum 0)
   \<and> (map_of d ''progress_percentage'' = None \<longrightarrow>
      rf_progress_percentage (render_progress_fields d) = PNum 0
    \<and> sf_progress_percentage (static_progress_fields d) = PNum 0)
   \<and> (map_of d ''start_time'' = None \<longrightarrow>
      rf_start_time (render_progress_fields d) = PNum 0
    \<and> sf_start_time (static_progress_fields d) = PNum 0)
   \<and> (map_of d ''estimated_total_time'' = None \<longrightarrow>
      rf_estimated_total_time (render_progress_fields d) = PNum 0
    \<and> sf_estimated_total_time (static_progress_fields d) = PNum 0)
   \<and> (map_of d ''elapsed_time'' = None \<longrightarrow>
      rf_elapsed_time (render_progress_fields d) = PNum 0
    \<and> sf_elapsed_time (static_progress_fields d) = PNum 0)
   \<and> (map_of d ''total_steps'' = None \<longrightarrow>
      rf_total_steps (render_progress_fields d) = PNum 8)
   \<and> (map_of d ''status'' = None \<longrightarrow>
      rf_status (render_progress_fields d) = PStr ''running''
    \<and> sf_status (static_progress_fields d) = PStr ''running'')
   \<and> (map_of d ''current_step_name'' = None \<longrightarrow>
      rf_step_name (render_progress_fields d) = PStr TEXT_UNKNOWN
    \<and> sf_current_step_name (static_progress_fields d) = PStr TEXT_PREPARING_STAGE)
   \<and> (map_of d ''current_step_description'' = None \<longrightarrow>
      rf_step_description (render_progress_fields d) = PStr []
    \<and> sf_current_step_description (static_progress_fields d) = PStr TEXT_INIT_ENGINE)
   \<and> (map_of d ''last_message'' = None \<longrightarrow>
      rf_last_message (render_progress_fields d) = PStr []
    \<and> sf_last_message (static_progress_fields d) = PStr TEXT_READY_TO_START)
   \<and> (map_of d k = Some v \<longrightarrow> dict_get d k dflt = v)"
  by (simp add: render_progress_fields_def static_progress_fields_def dict_get_def)

theorem payload_defaults_witness:
  "render_progress_fields payload_identity_only =
     \<lparr> rf_current_step = PNum 0, rf_total_steps = PNum 8, rf_progress_percentage = PNum 0,
       rf_status = PStr ''running'', rf_step_name = PStr TEXT_UNKNOWN,
       rf_step_description = PStr [], rf_last_message = PStr [], rf_start_time = PNum 0,
       rf_estimated_total_time = PNum 0, rf_elapsed_time = PNum 0 \<rparr>
   \<and> static_progress_fields payload_identity_only =
     \<lparr> sf_status = PStr ''running'', sf_current_step = PNum 0,
       sf_current_step_name = PStr TEXT_PREPARING_STAGE, sf_progress_percentage = PNum 0,
       sf_start_time = PNum 0, sf_estimated_total_time = PNum 0, sf_elapsed_time = PNum 0,
       sf_current_step_description = PStr TEXT_INIT_ENGINE,
       sf_last_message = PStr TEXT_READY_TO_START \<rparr>
   \<and> dict_get payload_identity_only ''status'' (PStr ''unknown'') = PStr ''running''"
  using payload_defaults[of payload_identity_only "''status''" "PStr ''running''" "PStr ''unknown''"]
  by (simp add: payload_identity_only_def render_progress_fields_def static_progress_fields_def
      dict_get_def)

text \<open>
  C2 at a failed analysis. The payload was started at 100 and stores an elapsed time of 50;
  the clock reads 1000. The elapsed time computed for the failed analysis is 900, the
  reading of the clock, and this is what the display shows; for the completed analysis it
  is the stored 50, and for a running one the reading of the clock.
\<close>

theorem elapsed_time_of_failed_analysis:
  "dict_get payload_failed ''elapsed_time'' (PNum 0) = PNum 50
   \<and> elapsed_time 1000 payload_failed = Inr (PNum 900)
   \<and> elapsed_time 1000 payload_completed = Inr (PNum 50)
   \<and> elapsed_time 1000 payload_running_plain = Inr (PNum 100)
   \<and> now_elapsed env_failed = 1000
   \<and> UI ''metric'' ''elapsed time'' [CStr ''900s'']
       \<in> set (snd (snd (display_static_progress_with_controls env_failed ''job1'' True True
                          Map.empty)))
   \<and> UI ''metric'' ''elapsed time'' [CStr ''50s'']
       \<notin> set (snd (snd (display_static_progress_with_controls env_failed ''job1'' True True
                          Map.empty)))"
  by (simp add: display_defs env_failed_def env_quiet_def payload_failed_def
      payload_completed_def payload_running_plain_def io_defs key_defs)

end
